theory Spec2Isabelle
  imports Complex_Main
begin

section \<open>Numbers and text fields\<close>

text \<open>
  The page keeps every numeric field as a string and reads it with
  \<^verbatim>\<open>Number(v)\<close>. A field is represented here by the value \<^verbatim>\<open>Number\<close>
  yields on its text: a finite number, \<^verbatim>\<open>NaN\<close> (text that is not a numeric literal)
  or an infinity (\<^verbatim>\<open>"Infinity"\<close>, \<^verbatim>\<open>"1e999"\<close>).

  The program is modelled twice. In the first model finite numbers are real numbers and
  arithmetic on them is exact; it carries the statements about the formulas the program
  evaluates. What it keeps of IEEE arithmetic are the non-finite results of a division by
  zero and the way they travel through products and quotients. Rounding and overflow
  decide whether a result is exactly zero, infinite or \<^verbatim>\<open>NaN\<close>, so for the statements
  about such results the sizing computation is modelled again, operation by operation, in
  binary64 arithmetic (section ``Binary64 arithmetic''). The sign of zero is in neither
  model.
\<close>

datatype jsnumber = Finite real | PosInfinity | NegInfinity | NaN

fun isFinite :: "jsnumber \<Rightarrow> bool" where
  "isFinite (Finite x) = True"
| "isFinite PosInfinity = False"
| "isFinite NegInfinity = False"
| "isFinite NaN = False"

text \<open>\<^verbatim>\<open>x / y\<close> on two finite numbers.\<close>

definition js_div :: "real \<Rightarrow> real \<Rightarrow> jsnumber" where
  "js_div x y =
     (if y \<noteq> 0 then Finite (x / y)
      else if x > 0 then PosInfinity
      else if x < 0 then NegInfinity
      else NaN)"

text \<open>The sign of a number that is neither zero nor \<^verbatim>\<open>NaN\<close>.\<close>

fun js_positive :: "jsnumber \<Rightarrow> bool" where
  "js_positive (Finite x) = (x > 0)"
| "js_positive PosInfinity = True"
| "js_positive NegInfinity = False"
| "js_positive NaN = False"

text \<open>\<^verbatim>\<open>a * b\<close>: a product with \<^verbatim>\<open>NaN\<close>, or of zero and an infinity, is \<^verbatim>\<open>NaN\<close>.\<close>

fun js_times :: "jsnumber \<Rightarrow> jsnumber \<Rightarrow> jsnumber" where
  "js_times (Finite x) (Finite y) = Finite (x * y)"
| "js_times a b =
     (if a = NaN \<or> b = NaN \<or> a = Finite 0 \<or> b = Finite 0 then NaN
      else if js_positive a = js_positive b then PosInfinity
      else NegInfinity)"

text \<open>\<^verbatim>\<open>a / b\<close>: a finite number over an infinity is zero, an infinity over an
  infinity is \<^verbatim>\<open>NaN\<close>.\<close>

fun js_divide :: "jsnumber \<Rightarrow> jsnumber \<Rightarrow> jsnumber" where
  "js_divide (Finite x) (Finite y) = js_div x y"
| "js_divide a b =
     (if a = NaN \<or> b = NaN then NaN
      else if isFinite a then Finite 0
      else if isFinite b then
        (if js_positive a = (b = Finite 0 \<or> js_positive b) then PosInfinity else NegInfinity)
      else NaN)"

text \<open>
  \<^verbatim>\<open>function toNum(v: string) { const n = Number(v); return Number.isFinite(n) ? n : 0; }\<close>
\<close>

definition toNum :: "jsnumber \<Rightarrow> real" where
  "toNum v = (case v of Finite n \<Rightarrow> n | _ \<Rightarrow> 0)"

text \<open>
  \<^verbatim>\<open>Math.pow(x, y)\<close> for a positive base, and for a base that is not positive with a
  natural exponent. The callers pass products and sums of positive numbers, a Reynolds
  number of at least 2300, and the exponent 2; the remaining arguments, where
  \<^verbatim>\<open>Math.pow\<close> yields \<^verbatim>\<open>NaN\<close>, an infinity or a reciprocal, get 0 here.
\<close>

definition Math_pow :: "real \<Rightarrow> real \<Rightarrow> real" where
  "Math_pow x y =
     (if 0 < x then x powr y
      else if y \<in> \<nat> then x ^ nat \<lfloor>y\<rfloor>
      else 0)"

text \<open>\<^verbatim>\<open>Math.log10(x)\<close> and \<^verbatim>\<open>Math.sqrt(x)\<close>, both called on positive numbers only.\<close>

definition Math_log10 :: "real \<Rightarrow> real" where
  "Math_log10 x = log 10 x"

definition Math_sqrt :: "real \<Rightarrow> real" where
  "Math_sqrt x = sqrt x"

section \<open>Geometry and friction\<close>

datatype Shape = Round | Rect
datatype Material = Galv | Pvc | Flex
datatype Mode = FromSize | FromCfm

definition roundAreaIn2 :: "real \<Rightarrow> real" where
  "roundAreaIn2 dIn = (let r = dIn / 2 in pi * r * r)"

text \<open>Rectangular to equivalent round, in inches.\<close>

definition equivalentRoundIn :: "real \<Rightarrow> real \<Rightarrow> real" where
  "equivalentRoundIn a b =
     (if a \<le> 0 \<or> b \<le> 0 then 0
      else 1.3 * Math_pow (a * b) 0.625 / Math_pow (a + b) 0.25)"

text \<open>
  The Darcy friction factor; \<open>Re'\<close> is the source's \<^verbatim>\<open>Re\<close>, and
  \<open>darcy_term\<close> its local \<^verbatim>\<open>term\<close>. The two early returns make \<open>Re'\<close> and
  \<open>D\<close> positive in every quotient but the last one, whose denominator
  \<^verbatim>\<open>Math.pow(Math.log10(term), 2)\<close> is not tested: it is the only division of the
  program written with \<^const>\<open>js_div\<close>; the others have a constant or a tested
  denominator.
\<close>

definition darcy_term :: "real \<Rightarrow> real \<Rightarrow> real \<Rightarrow> real" where
  "darcy_term Re' eps D = eps / (3.7 * D) + 5.74 / Math_pow Re' 0.9"

definition frictionFactorDarcy :: "real \<Rightarrow> real \<Rightarrow> real \<Rightarrow> jsnumber" where
  "frictionFactorDarcy Re' eps D =
     (if Re' \<le> 0 \<or> D \<le> 0 then Finite 0
      else if Re' < 2300 then Finite (64 / Re')
      else let term = darcy_term Re' eps D
           in js_div 0.25 (Math_pow (Math_log10 term) 2))"

definition inToM :: "real \<Rightarrow> real" where
  "inToM inches = inches * 0.0254"

definition ftToM :: "real \<Rightarrow> real" where
  "ftToM ft = ft * 0.3048"

definition paToInWg :: "jsnumber \<Rightarrow> jsnumber" where
  "paToInWg pa = js_divide pa (Finite 249.0889)"

definition cfmToM3s :: "real \<Rightarrow> real" where
  "cfmToM3s c = c * 0.00047194745"

section \<open>The sizing computation\<close>

record duct_inputs =
  mode :: Mode
  shape :: Shape
  material :: Material
  targetFpm :: jsnumber
  roundDia :: jsnumber
  rectW :: jsnumber
  rectH :: jsnumber
  cfm :: jsnumber

record calc_result =
  usedCfm :: real
  areaIn2 :: real
  areaFt2 :: real
  velFpm :: real
  Dh_in :: real
  eqRound :: real
  dpInWgPer100ft :: jsnumber
  idealRoundDia :: real

text \<open>Roughness in metres, by material.\<close>

definition roughness :: "Material \<Rightarrow> real" where
  "roughness m = (case m of Galv \<Rightarrow> 0.00015 | Pvc \<Rightarrow> 0.0000015 | Flex \<Rightarrow> 0.0003)"

text \<open>
  The first block of \<^verbatim>\<open>calc\<close>: the area in square inches and the airflow, by mode.
\<close>

definition area_and_cfm :: "duct_inputs \<Rightarrow> real \<times> real" where
  "area_and_cfm s =
     (let FPM = toNum (targetFpm s) in
      if mode s = FromSize then
        let areaIn2 =
              (if shape s = Round then
                 let d = toNum (roundDia s) in if d > 0 then roundAreaIn2 d else 0
               else
                 let w = toNum (rectW s); h = toNum (rectH s)
                 in if w > 0 \<and> h > 0 then w * h else 0);
            areaFt2 = areaIn2 / 144;
            usedCfm = (if areaFt2 > 0 then areaFt2 * FPM else 0)
        in (areaIn2, usedCfm)
      else
        let usedCfm = toNum (cfm s);
            areaFt2 = (if FPM > 0 then usedCfm / FPM else 0);
            areaIn2 = areaFt2 * 144
        in (areaIn2, usedCfm))"

text \<open>
  The second block: hydraulic diameter and equivalent round diameter, by shape.
  \<^verbatim>\<open>toNum(roundDia) || 0\<close> replaces a falsy number, which for a finite one is zero, by 0.
\<close>

definition geometry :: "duct_inputs \<Rightarrow> real \<times> real" where
  "geometry s =
     (if shape s = Round then
        ((if toNum (roundDia s) = 0 then 0 else toNum (roundDia s)), 0)
      else
        let w = toNum (rectW s); h = toNum (rectH s)
        in ((if w > 0 \<and> h > 0 then (2 * w * h) / (w + h) else 0), equivalentRoundIn w h))"

text \<open>The friction block: pressure drop over 100 ft, in inches of water.\<close>

definition friction :: "Material \<Rightarrow> real \<Rightarrow> real \<Rightarrow> real \<Rightarrow> jsnumber" where
  "friction m = (\<lambda>usedCfm areaIn2 Dh_in.
      let rho = 1.2;
          mu = 1.81 / 10 ^ 5;
          eps = roughness m;
          Q = cfmToM3s usedCfm;
          A = (if areaIn2 > 0 then areaIn2 * (0.0254 * 0.0254) else 0);
          V = (if A > 0 then Q / A else 0);
          D = inToM Dh_in;
          Re' = (if mu > 0 then (rho * V * D) / mu else 0);
          f = frictionFactorDarcy Re' eps D;
          L = ftToM 100;
          dpPaPer100ft =
            (if D > 0 then js_times (js_times f (Finite (L / D))) (Finite (rho * V * V / 2))
             else Finite 0)
      in paToInWg dpPaPer100ft)"

definition calc :: "duct_inputs \<Rightarrow> calc_result" where
  "calc s =
     (let areaIn2 = fst (area_and_cfm s);
          usedCfm = snd (area_and_cfm s);
          areaFt2 = areaIn2 / 144;
          Dh_in = fst (geometry s);
          eqRound = snd (geometry s);
          velFpm = (if areaFt2 > 0 then usedCfm / areaFt2 else 0);
          dpInWgPer100ft = friction (material s) usedCfm areaIn2 Dh_in;
          idealRoundDia = (if areaIn2 > 0 then Math_sqrt ((4 * areaIn2) / pi) else 0)
      in \<lparr> usedCfm = usedCfm, areaIn2 = areaIn2, areaFt2 = areaFt2, velFpm = velFpm,
           Dh_in = Dh_in, eqRound = eqRound, dpInWgPer100ft = dpInWgPer100ft,
           idealRoundDia = idealRoundDia \<rparr>)"

section \<open>The run-loss computation\<close>

datatype FittingKey = elbow90 | elbow45 | teeThru | teeBranch | wye45 | boot | transition

text \<open>\<^verbatim>\<open>Object.keys(FITTING_LABELS)\<close>: the seven kinds, in the order of the table.\<close>

definition FITTING_KEYS :: "FittingKey list" where
  "FITTING_KEYS = [elbow90, elbow45, teeThru, teeBranch, wye45, boot, transition]"

text \<open>Starting equivalent lengths in feet, editable on the page.\<close>

definition DEFAULT_EQ_LEN_FT :: "FittingKey \<Rightarrow> real" where
  "DEFAULT_EQ_LEN_FT k =
     (case k of elbow90 \<Rightarrow> 25 | elbow45 \<Rightarrow> 15 | teeThru \<Rightarrow> 20 | teeBranch \<Rightarrow> 60
      | wye45 \<Rightarrow> 30 | boot \<Rightarrow> 20 | transition \<Rightarrow> 15)"

record run_inputs =
  straightLenFt :: jsnumber
  fitCount :: "FittingKey \<Rightarrow> jsnumber"
  fitEqLen :: "FittingKey \<Rightarrow> jsnumber"

text \<open>One row of the fittings table; the display label of the source's row is left out.\<close>

record item =
  key :: FittingKey
  count :: real
  eq :: real
  eqTotal :: real

record run_result =
  items :: "item list"
  straight :: real
  fittingsEq :: real
  totalEqLen :: real
  frictionPer100 :: jsnumber
  totalDrop :: jsnumber

text \<open>
  \<^verbatim>\<open>run\<close> reads the run inputs and \<^verbatim>\<open>calc.dpInWgPer100ft\<close>, its second argument here.
\<close>

definition run :: "run_inputs \<Rightarrow> jsnumber \<Rightarrow> run_result" where
  "run s dp =
     (let straight = toNum (straightLenFt s);
          items = map (\<lambda>k.
                    let count = toNum (fitCount s k);
                        eq = toNum (fitEqLen s k);
                        eqTotal = count * eq
                    in \<lparr> key = k, count = count, eq = eq, eqTotal = eqTotal \<rparr>) FITTING_KEYS;
          fittingsEq = foldl (\<lambda>sum it. sum + eqTotal it) 0 items;
          totalEqLen = straight + fittingsEq;
          frictionPer100 = dp;
          totalDrop = js_times frictionPer100 (Finite (totalEqLen / 100))
      in \<lparr> items = items, straight = straight, fittingsEq = fittingsEq,
           totalEqLen = totalEqLen, frictionPer100 = frictionPer100, totalDrop = totalDrop \<rparr>)"

section \<open>The arguments of the friction factor\<close>

text \<open>
  The friction block calls \<^verbatim>\<open>frictionFactorDarcy(Re, eps, D)\<close> once. \<open>reynolds\<close> is the
  first argument of that call, as the block computes it from the airflow, the area and
  the hydraulic diameter; \<open>calc_Re\<close> and \<open>calc_D\<close> are the first and the third argument
  for an input state.
\<close>

definition reynolds :: "real \<Rightarrow> real \<Rightarrow> real \<Rightarrow> real" where
  "reynolds = (\<lambda>usedCfm areaIn2 Dh_in.
      let rho = 1.2;
          mu = 1.81 / 10 ^ 5;
          Q = cfmToM3s usedCfm;
          A = (if areaIn2 > 0 then areaIn2 * (0.0254 * 0.0254) else 0);
          V = (if A > 0 then Q / A else 0);
          D = inToM Dh_in
      in if mu > 0 then (rho * V * D) / mu else 0)"



section \<open>Binary64 arithmetic\<close>

text \<open>
  \<open>round64\<close> rounds a real number to the nearest binary64 number, ties to the even
  significand: 53 bits of significand, the least exponent of the last place \<open>- 1074\<close>
  (gradual underflow), and an infinity when the rounded magnitude reaches \<open>2 ^ 1024\<close>.
\<close>

definition round_even :: "real \<Rightarrow> int" where
  "round_even x =
     (let n = \<lfloor>x\<rfloor>; r = x - of_int n
      in if r < 1 / 2 then n else if 1 / 2 < r then n + 1 else if even n then n else n + 1)"

definition ulp_exponent :: "real \<Rightarrow> int" where
  "ulp_exponent x = max \<lfloor>log 2 \<bar>x\<bar>\<rfloor> (- 1022) - 52"

definition round64 :: "real \<Rightarrow> jsnumber" where
  "round64 x =
     (if x = 0 then Finite 0
      else
        let u = 2 powr of_int (ulp_exponent x);
            y = of_int (round_even (x / u)) * u
        in if 2 ^ 1024 \<le> \<bar>y\<bar> then (if 0 < x then PosInfinity else NegInfinity)
           else Finite y)"

text \<open>
  \<^verbatim>\<open>a * b\<close>, \<^verbatim>\<open>a / b\<close> and \<^verbatim>\<open>a + b\<close>: the exact result, rounded; with an operand
  that is not finite, or a zero divisor, the result of the IEEE rules above.
\<close>

fun js_mul64 :: "jsnumber \<Rightarrow> jsnumber \<Rightarrow> jsnumber" where
  "js_mul64 (Finite x) (Finite y) = round64 (x * y)"
| "js_mul64 a b = js_times a b"

fun js_div64 :: "jsnumber \<Rightarrow> jsnumber \<Rightarrow> jsnumber" where
  "js_div64 (Finite x) (Finite y) = (if y = 0 then js_div x y else round64 (x / y))"
| "js_div64 a b = js_divide a b"

fun js_add64 :: "jsnumber \<Rightarrow> jsnumber \<Rightarrow> jsnumber" where
  "js_add64 (Finite x) (Finite y) = round64 (x + y)"
| "js_add64 a b =
     (if a = NaN \<or> b = NaN then NaN
      else if isFinite a then b
      else if isFinite b then a
      else if a = b then a
      else NaN)"

text \<open>
  \<^verbatim>\<open>a > c\<close>, \<^verbatim>\<open>a <= c\<close> and \<^verbatim>\<open>a < c\<close> against a finite constant: every comparison
  with \<^verbatim>\<open>NaN\<close> is false.
\<close>

definition js_gt :: "jsnumber \<Rightarrow> real \<Rightarrow> bool" where
  "js_gt a c = (case a of Finite x \<Rightarrow> c < x | PosInfinity \<Rightarrow> True | _ \<Rightarrow> False)"

definition js_le :: "jsnumber \<Rightarrow> real \<Rightarrow> bool" where
  "js_le a c = (case a of Finite x \<Rightarrow> x \<le> c | NegInfinity \<Rightarrow> True | _ \<Rightarrow> False)"

definition js_lt :: "jsnumber \<Rightarrow> real \<Rightarrow> bool" where
  "js_lt a c = (case a of Finite x \<Rightarrow> x < c | NegInfinity \<Rightarrow> True | _ \<Rightarrow> False)"

text \<open>
  \<^verbatim>\<open>Math.pow\<close>, \<^verbatim>\<open>Math.log10\<close> and \<^verbatim>\<open>Math.sqrt\<close> return implementation-approximated
  values. Their results on finite arguments are taken as a parameter, a \<open>math_library\<close>.
  Of the cases the language fixes, those this program reaches are written out: a zero base
  with a positive exponent gives zero, the logarithm of 1 is zero, that of zero is the
  negative infinity, and the infinities and \<^verbatim>\<open>NaN\<close> are mapped as the language says.
  The exponents of this program are 0.625, 0.25, 0.9 and 2: positive, and no odd integers,
  so that a negative infinity as base gives the positive one.
  \<^verbatim>\<open>Math.PI\<close> is the binary64 number nearest to \<open>pi\<close>, 3.141592653589793.
\<close>

record math_library =
  pow_result :: "real \<Rightarrow> real \<Rightarrow> real"
  log10_result :: "real \<Rightarrow> real"
  sqrt_result :: "real \<Rightarrow> real"

definition Math_PI64 :: jsnumber where
  "Math_PI64 = Finite (884279719003555 / 2 ^ 48)"

definition Math_pow64 :: "math_library \<Rightarrow> jsnumber \<Rightarrow> jsnumber \<Rightarrow> jsnumber" where
  "Math_pow64 lib b y =
     (case y of
        Finite ye \<Rightarrow>
          (case b of
             Finite x \<Rightarrow> if x = 0 then Finite 0 else Finite (pow_result lib x ye)
           | PosInfinity \<Rightarrow> PosInfinity
           | NegInfinity \<Rightarrow> PosInfinity
           | NaN \<Rightarrow> NaN)
      | _ \<Rightarrow> NaN)"

definition Math_log10_64 :: "math_library \<Rightarrow> jsnumber \<Rightarrow> jsnumber" where
  "Math_log10_64 lib a =
     (case a of
        Finite x \<Rightarrow>
          if x < 0 then NaN else if x = 0 then NegInfinity else if x = 1 then Finite 0
          else Finite (log10_result lib x)
      | PosInfinity \<Rightarrow> PosInfinity
      | _ \<Rightarrow> NaN)"

definition Math_sqrt64 :: "math_library \<Rightarrow> jsnumber \<Rightarrow> jsnumber" where
  "Math_sqrt64 lib a =
     (case a of
        Finite x \<Rightarrow> if x < 0 then NaN else if x = 0 then Finite 0 else Finite (sqrt_result lib x)
      | PosInfinity \<Rightarrow> PosInfinity
      | _ \<Rightarrow> NaN)"

text \<open>The library that returns the exact real results.\<close>

definition exact_library :: math_library where
  "exact_library = \<lparr> pow_result = (\<lambda>x y. x powr y), log10_result = log 10, sqrt_result = sqrt \<rparr>"

text \<open>
  The functions of the program once more, with every numeric literal rounded to binary64
  and every operation rounded. The comparisons, their order and the order of the
  operations are those of the source.
\<close>

definition roundAreaIn2_64 :: "jsnumber \<Rightarrow> jsnumber" where
  "roundAreaIn2_64 dIn = (let r = js_div64 dIn (Finite 2) in js_mul64 (js_mul64 Math_PI64 r) r)"

definition equivalentRoundIn64 :: "math_library \<Rightarrow> jsnumber \<Rightarrow> jsnumber \<Rightarrow> jsnumber" where
  "equivalentRoundIn64 lib a b =
     (if js_le a 0 \<or> js_le b 0 then Finite 0
      else js_div64 (js_mul64 (round64 1.3) (Math_pow64 lib (js_mul64 a b) (round64 0.625)))
                    (Math_pow64 lib (js_add64 a b) (round64 0.25)))"

definition frictionFactorDarcy64 ::
  "math_library \<Rightarrow> jsnumber \<Rightarrow> jsnumber \<Rightarrow> jsnumber \<Rightarrow> jsnumber" where
  "frictionFactorDarcy64 lib Re' eps D =
     (if js_le Re' 0 \<or> js_le D 0 then Finite 0
      else if js_lt Re' 2300 then js_div64 (Finite 64) Re'
      else let term = js_add64 (js_div64 eps (js_mul64 (round64 3.7) D))
                               (js_div64 (round64 5.74) (Math_pow64 lib Re' (round64 0.9)))
           in js_div64 (round64 0.25) (Math_pow64 lib (Math_log10_64 lib term) (Finite 2)))"

definition inToM64 :: "jsnumber \<Rightarrow> jsnumber" where
  "inToM64 inches = js_mul64 inches (round64 0.0254)"

definition ftToM64 :: "jsnumber \<Rightarrow> jsnumber" where
  "ftToM64 ft = js_mul64 ft (round64 0.3048)"

definition paToInWg64 :: "jsnumber \<Rightarrow> jsnumber" where
  "paToInWg64 pa = js_div64 pa (round64 249.0889)"

definition cfmToM3s64 :: "jsnumber \<Rightarrow> jsnumber" where
  "cfmToM3s64 c = js_mul64 c (round64 0.00047194745)"

record calc_result64 =
  usedCfm64 :: jsnumber
  areaIn2_64 :: jsnumber
  areaFt2_64 :: jsnumber
  velFpm64 :: jsnumber
  Dh_in64 :: jsnumber
  eqRound64 :: jsnumber
  dpInWgPer100ft64 :: jsnumber
  idealRoundDia64 :: jsnumber

definition area_and_cfm64 :: "duct_inputs \<Rightarrow> jsnumber \<times> jsnumber" where
  "area_and_cfm64 s =
     (let FPM = Finite (toNum (targetFpm s)) in
      if mode s = FromSize then
        let areaIn2 =
              (if shape s = Round then
                 let d = Finite (toNum (roundDia s))
                 in if js_gt d 0 then roundAreaIn2_64 d else Finite 0
               else
                 let w = Finite (toNum (rectW s)); h = Finite (toNum (rectH s))
                 in if js_gt w 0 \<and> js_gt h 0 then js_mul64 w h else Finite 0);
            areaFt2 = js_div64 areaIn2 (Finite 144);
            usedCfm = (if js_gt areaFt2 0 then js_mul64 areaFt2 FPM else Finite 0)
        in (areaIn2, usedCfm)
      else
        let usedCfm = Finite (toNum (cfm s));
            areaFt2 = (if js_gt FPM 0 then js_div64 usedCfm FPM else Finite 0);
            areaIn2 = js_mul64 areaFt2 (Finite 144)
        in (areaIn2, usedCfm))"

definition geometry64 :: "math_library \<Rightarrow> duct_inputs \<Rightarrow> jsnumber \<times> jsnumber" where
  "geometry64 lib s =
     (if shape s = Round then
        (Finite (if toNum (roundDia s) = 0 then 0 else toNum (roundDia s)), Finite 0)
      else
        let w = Finite (toNum (rectW s)); h = Finite (toNum (rectH s))
        in ((if js_gt w 0 \<and> js_gt h 0
             then js_div64 (js_mul64 (js_mul64 (Finite 2) w) h) (js_add64 w h)
             else Finite 0),
            equivalentRoundIn64 lib w h))"

definition roughness64 :: "Material \<Rightarrow> jsnumber" where
  "roughness64 m =
     (case m of Galv \<Rightarrow> round64 0.00015 | Pvc \<Rightarrow> round64 0.0000015 | Flex \<Rightarrow> round64 0.0003)"

definition friction64 ::
  "math_library \<Rightarrow> Material \<Rightarrow> jsnumber \<Rightarrow> jsnumber \<Rightarrow> jsnumber \<Rightarrow> jsnumber" where
  "friction64 lib m = (\<lambda>usedCfm areaIn2 Dh_in.
      let rho = round64 1.2;
          mu = round64 (1.81 / 10 ^ 5);
          eps = roughness64 m;
          Q = cfmToM3s64 usedCfm;
          A = (if js_gt areaIn2 0
               then js_mul64 areaIn2 (js_mul64 (round64 0.0254) (round64 0.0254))
               else Finite 0);
          V = (if js_gt A 0 then js_div64 Q A else Finite 0);
          D = inToM64 Dh_in;
          Re' = (if js_gt mu 0 then js_div64 (js_mul64 (js_mul64 rho V) D) mu else Finite 0);
          f = frictionFactorDarcy64 lib Re' eps D;
          L = ftToM64 (Finite 100);
          dpPaPer100ft =
            (if js_gt D 0
             then js_mul64 (js_mul64 f (js_div64 L D))
                           (js_div64 (js_mul64 (js_mul64 rho V) V) (Finite 2))
             else Finite 0)
      in paToInWg64 dpPaPer100ft)"

definition calc64 :: "math_library \<Rightarrow> duct_inputs \<Rightarrow> calc_result64" where
  "calc64 lib s =
     (let areaIn2 = fst (area_and_cfm64 s);
          usedCfm = snd (area_and_cfm64 s);
          areaFt2 = js_div64 areaIn2 (Finite 144);
          Dh_in = fst (geometry64 lib s);
          eqRound = snd (geometry64 lib s);
          velFpm = (if js_gt areaFt2 0 then js_div64 usedCfm areaFt2 else Finite 0);
          dpInWgPer100ft = friction64 lib (material s) usedCfm areaIn2 Dh_in;
          idealRoundDia =
            (if js_gt areaIn2 0
             then Math_sqrt64 lib (js_div64 (js_mul64 (Finite 4) areaIn2) Math_PI64)
             else Finite 0)
      in \<lparr> usedCfm64 = usedCfm, areaIn2_64 = areaIn2, areaFt2_64 = areaFt2, velFpm64 = velFpm,
           Dh_in64 = Dh_in, eqRound64 = eqRound, dpInWgPer100ft64 = dpInWgPer100ft,
           idealRoundDia64 = idealRoundDia \<rparr>)"

section \<open>Input states\<close>

text \<open>The state the page starts in.\<close>

definition initial_duct :: duct_inputs where
  "initial_duct =
     \<lparr> mode = FromSize, shape = Round, material = Galv, targetFpm = Finite 700,
       roundDia = Finite 10, rectW = Finite 10, rectH = Finite 8, cfm = Finite 800 \<rparr>"

definition initial_run :: run_inputs where
  "initial_run =
     \<lparr> straightLenFt = Finite 50,
       fitCount = (\<lambda>k. case k of elbow90 \<Rightarrow> Finite 2 | boot \<Rightarrow> Finite 1 | _ \<Rightarrow> Finite 0),
       fitEqLen = (\<lambda>k. Finite (DEFAULT_EQ_LEN_FT k)) \<rparr>"

text \<open>
  A field holds text that is zero, negative or not a number: what \<^const>\<open>toNum\<close> reads
  from it is not positive.
\<close>

definition nonPositive :: "jsnumber \<Rightarrow> bool" where
  "nonPositive v = (case v of Finite x \<Rightarrow> x \<le> 0 | _ \<Rightarrow> True)"

text \<open>A dimension field of the selected shape is such a field.\<close>

definition badDimension :: "duct_inputs \<Rightarrow> bool" where
  "badDimension s =
     (if shape s = Round then nonPositive (roundDia s)
      else nonPositive (rectW s) \<or> nonPositive (rectH s))"

text \<open>A slow flow, in the laminar regime (Reynolds number about 1711).\<close>

definition laminar_duct :: duct_inputs where
  "laminar_duct = initial_duct \<lparr> mode := FromCfm, targetFpm := Finite 20 \<rparr>"

text \<open>States with one degenerate field each, and a rectangular duct.\<close>

definition zero_velocity_duct :: duct_inputs where
  "zero_velocity_duct = initial_duct \<lparr> targetFpm := Finite 0 \<rparr>"

definition zero_diameter_duct :: duct_inputs where
  "zero_diameter_duct = initial_duct \<lparr> roundDia := Finite 0 \<rparr>"

definition zero_diameter_cfm_duct :: duct_inputs where
  "zero_diameter_cfm_duct = initial_duct \<lparr> mode := FromCfm, roundDia := Finite 0 \<rparr>"

definition zero_velocity_cfm_duct :: duct_inputs where
  "zero_velocity_cfm_duct = initial_duct \<lparr> mode := FromCfm, targetFpm := NaN \<rparr>"

definition cfm_duct :: duct_inputs where
  "cfm_duct = initial_duct \<lparr> mode := FromCfm \<rparr>"

definition rect_duct :: duct_inputs where
  "rect_duct = initial_duct \<lparr> shape := Rect \<rparr>"

definition flat_rect_duct :: duct_inputs where
  "flat_rect_duct = initial_duct \<lparr> shape := Rect, rectH := Finite 0 \<rparr>"

text \<open>The initial run with the unit length of the 90 degree elbow edited.\<close>

definition edited_run :: run_inputs where
  "edited_run = initial_run \<lparr> fitEqLen := (fitEqLen initial_run) (elbow90 := Finite 40) \<rparr>"

text \<open>Runs with a negative straight length, quantity and unit length.\<close>

definition negative_straight_run :: run_inputs where
  "negative_straight_run = initial_run \<lparr> straightLenFt := Finite (- 200) \<rparr>"

definition negative_count_run :: run_inputs where
  "negative_count_run = initial_run \<lparr> fitCount := (fitCount initial_run) (elbow90 := Finite (- 10)) \<rparr>"

definition negative_length_run :: run_inputs where
  "negative_length_run = initial_run \<lparr> fitEqLen := (fitEqLen initial_run) (elbow90 := Finite (- 100)) \<rparr>"

text \<open>
  A state of the second mode with another shape and material, whose airflow field holds
  the airflow the initial state gives in the first mode.
\<close>

definition round_trip_duct :: duct_inputs where
  "round_trip_duct =
     \<lparr> mode = FromCfm, shape = Rect, material = Pvc, targetFpm = Finite 700,
       roundDia = Finite 3, rectW = Finite 4, rectH = Finite 5,
       cfm = Finite (4375 * pi / 36) \<rparr>"

text \<open>
  A state of the second mode whose text fields (velocity \<^verbatim>\<open>"500000"\<close>, airflow
  \<^verbatim>\<open>"800"\<close>, diameter \<^verbatim>\<open>"0.001599329556356756"\<close>) lead the binary64 computation to
  take the logarithm of exactly 1, and the Reynolds number it computes on the way.
\<close>

definition infinite_friction_duct :: duct_inputs where
  "infinite_friction_duct =
     \<lparr> mode = FromCfm, shape = Round, material = Galv, targetFpm = Finite 500000,
       roundDia = round64 (1599329556356756 / 10 ^ 18), rectW = Finite 10, rectH = Finite 8,
       cfm = Finite 800 \<rparr>"

definition infinite_friction_Re :: real where
  "infinite_friction_Re = 940194948619153 / 137438953472"

text \<open>
  States with a zero velocity and a diameter of \<^verbatim>\<open>"1e-306"\<close> in the second mode, of
  \<^verbatim>\<open>"1e200"\<close> in the first.
\<close>

definition zero_velocity_tiny_duct :: duct_inputs where
  "zero_velocity_tiny_duct =
     initial_duct \<lparr> mode := FromCfm, targetFpm := Finite 0, roundDia := round64 (1 / 10 ^ 306) \<rparr>"

definition zero_velocity_huge_duct :: duct_inputs where
  "zero_velocity_huge_duct =
     initial_duct \<lparr> targetFpm := Finite 0, roundDia := round64 (10 ^ 200) \<rparr>"

section \<open>Fields of the sizing result\<close>

lemma calc_usedCfm: "usedCfm (calc s) = snd (area_and_cfm s)"
  by (simp add: calc_def Let_def)

lemma calc_areaIn2: "areaIn2 (calc s) = fst (area_and_cfm s)"
  by (simp add: calc_def Let_def)

lemma calc_areaFt2: "areaFt2 (calc s) = fst (area_and_cfm s) / 144"
  by (simp add: calc_def Let_def)

lemma calc_velFpm:
  "velFpm (calc s) =
     (if fst (area_and_cfm s) / 144 > 0 then snd (area_and_cfm s) / (fst (area_and_cfm s) / 144)
      else 0)"
  by (simp add: calc_def Let_def)

lemma calc_Dh_in: "Dh_in (calc s) = fst (geometry s)"
  by (simp add: calc_def Let_def)

lemma calc_eqRound: "eqRound (calc s) = snd (geometry s)"
  by (simp add: calc_def Let_def)

lemma calc_dpInWgPer100ft:
  "dpInWgPer100ft (calc s) =
     friction (material s) (snd (area_and_cfm s)) (fst (area_and_cfm s)) (fst (geometry s))"
  by (simp add: calc_def Let_def)

lemma calc_idealRoundDia:
  "idealRoundDia (calc s) =
     (if fst (area_and_cfm s) > 0 then Math_sqrt ((4 * fst (area_and_cfm s)) / pi) else 0)"
  by (simp add: calc_def Let_def)



lemma nonPositive_toNum: "nonPositive v \<longleftrightarrow> toNum v \<le> 0"
  by (cases v) (simp_all add: nonPositive_def toNum_def)

section \<open>Modes and shapes\<close>

lemma initial_area: "area_and_cfm initial_duct = (25 * pi, 4375 * pi / 36)"
  by (simp add: area_and_cfm_def initial_duct_def Let_def toNum_def roundAreaIn2_def)


text \<open>
  C4: for every state of the mode that derives the airflow from the size, with a positive
  area and a positive velocity, the airflow is the area in square feet times the velocity;
  and every state of the other mode whose airflow field holds that airflow and whose
  velocity field holds the same velocity has the same area, whatever its shape, its
  dimensions and its material.
\<close>

theorem mode_round_trip:
  assumes "mode s = FromSize" and "0 < areaFt2 (calc s)" and "0 < toNum (targetFpm s)"
    and "mode s' = FromCfm" and "toNum (cfm s') = usedCfm (calc s)"
    and "toNum (targetFpm s') = toNum (targetFpm s)"
  shows "usedCfm (calc s) = areaFt2 (calc s) * toNum (targetFpm s) \<and>
         areaFt2 (calc s') = areaFt2 (calc s) \<and>
         areaIn2 (calc s') = areaIn2 (calc s)"
  using assms
  by (simp add: calc_usedCfm calc_areaFt2 calc_areaIn2 area_and_cfm_def Let_def)

text \<open>
  C4 at the initial state (a 10 inch round duct at 700 feet per minute) and a rectangular
  state of the other mode.
\<close>

theorem mode_round_trip_witness:
  "mode initial_duct = FromSize \<and> 0 < areaFt2 (calc initial_duct) \<and>
   0 < toNum (targetFpm initial_duct) \<and> mode round_trip_duct = FromCfm \<and>
   toNum (cfm round_trip_duct) = usedCfm (calc initial_duct) \<and>
   toNum (targetFpm round_trip_duct) = toNum (targetFpm initial_duct) \<and>
   usedCfm (calc initial_duct) = areaFt2 (calc initial_duct) * toNum (targetFpm initial_duct) \<and>
   areaFt2 (calc round_trip_duct) = areaFt2 (calc initial_duct) \<and>
   areaIn2 (calc round_trip_duct) = areaIn2 (calc initial_duct) \<and>
   areaFt2 (calc initial_duct) = 25 * pi / 144"
proof -
  have m: "mode initial_duct = FromSize"
    by (simp add: initial_duct_def)
  have a: "areaFt2 (calc initial_duct) = 25 * pi / 144"
    by (simp add: calc_areaFt2 initial_area)
  have p: "0 < areaFt2 (calc initial_duct)"
    by (simp add: a)
  have v: "0 < toNum (targetFpm initial_duct)"
    by (simp add: initial_duct_def toNum_def)
  have m': "mode round_trip_duct = FromCfm"
    by (simp add: round_trip_duct_def)
  have c: "toNum (cfm round_trip_duct) = usedCfm (calc initial_duct)"
    by (simp add: round_trip_duct_def toNum_def calc_usedCfm initial_area)
  have v': "toNum (targetFpm round_trip_duct) = toNum (targetFpm initial_duct)"
    by (simp add: round_trip_duct_def initial_duct_def toNum_def)
  show ?thesis
    using m a p v m' c v' mode_round_trip [OF m p v m' c v'] by blast
qed

text \<open>
  C6: in the mode that derives the size from the airflow, the area in square feet is the
  airflow over the velocity when the velocity is positive and 0 otherwise, the area in
  square inches is 144 times that, and when the area is positive the ideal round diameter
  is sqrt (4 area / pi), with the area in square inches.
\<close>

theorem fromCfm_area:
  assumes "mode s = FromCfm"
  shows "areaFt2 (calc s) =
           (if 0 < toNum (targetFpm s) then toNum (cfm s) / toNum (targetFpm s) else 0) \<and>
         areaIn2 (calc s) = areaFt2 (calc s) * 144 \<and>
         (0 < areaIn2 (calc s) \<longrightarrow> idealRoundDia (calc s) = sqrt (4 * areaIn2 (calc s) / pi))"
  using assms
  by (simp add: calc_areaFt2 calc_areaIn2 calc_idealRoundDia area_and_cfm_def Math_sqrt_def
      Let_def)

text \<open>C6 at an airflow of 800 with a velocity of 700, and with a velocity that is not a number.\<close>

theorem fromCfm_area_witness:
  "mode cfm_duct = FromCfm \<and> areaFt2 (calc cfm_duct) = 8 / 7 \<and>
   areaIn2 (calc cfm_duct) = 1152 / 7 \<and> 0 < areaIn2 (calc cfm_duct) \<and>
   idealRoundDia (calc cfm_duct) = sqrt (4 * (1152 / 7) / pi) \<and>
   mode zero_velocity_cfm_duct = FromCfm \<and> areaFt2 (calc zero_velocity_cfm_duct) = 0 \<and>
   areaIn2 (calc zero_velocity_cfm_duct) = 0"
proof -
  have m: "mode cfm_duct = FromCfm" "mode zero_velocity_cfm_duct = FromCfm"
    by (simp_all add: cfm_duct_def zero_velocity_cfm_duct_def initial_duct_def)
  have v: "toNum (targetFpm cfm_duct) = 700" "toNum (cfm cfm_duct) = 800"
    "toNum (targetFpm zero_velocity_cfm_duct) = 0"
    by (simp_all add: cfm_duct_def zero_velocity_cfm_duct_def initial_duct_def toNum_def)
  have ft: "areaFt2 (calc cfm_duct) = 8 / 7"
    using fromCfm_area [OF m(1)] by (simp add: v)
  have inch: "areaIn2 (calc cfm_duct) = 1152 / 7"
    using fromCfm_area [OF m(1)] by (simp add: ft)
  have pos: "0 < areaIn2 (calc cfm_duct)"
    by (simp add: inch)
  have ideal: "idealRoundDia (calc cfm_duct) = sqrt (4 * (1152 / 7) / pi)"
    using fromCfm_area [OF m(1)] pos unfolding inch by blast
  have zft: "areaFt2 (calc zero_velocity_cfm_duct) = 0"
    using fromCfm_area [OF m(2)] by (simp add: v)
  have zinch: "areaIn2 (calc zero_velocity_cfm_duct) = 0"
    using fromCfm_area [OF m(2)] by (simp add: zft)
  show ?thesis
    using m ft inch pos ideal zft zinch by blast
qed

text \<open>
  C7: for a rectangular duct of width w > 0 and height h > 0 the hydraulic diameter is
  2 w h / (w + h) and the equivalent round diameter is
  1.3 (w h)^0.625 / (w + h)^0.25; if either dimension is at most 0, both are 0.
\<close>

theorem rect_diameters:
  assumes "shape s = Rect" and "w = toNum (rectW s)" and "h = toNum (rectH s)"
  shows "(0 < w \<and> 0 < h \<longrightarrow>
            Dh_in (calc s) = 2 * w * h / (w + h) \<and>
            eqRound (calc s) = 1.3 * (w * h) powr 0.625 / (w + h) powr 0.25) \<and>
         (w \<le> 0 \<or> h \<le> 0 \<longrightarrow> Dh_in (calc s) = 0 \<and> eqRound (calc s) = 0)"
  using assms
  by (auto simp add: calc_Dh_in calc_eqRound geometry_def equivalentRoundIn_def Math_pow_def
      Let_def)

text \<open>C7 at 10 by 8 inches, and at 10 by 0 inches.\<close>

theorem rect_diameters_witness:
  "shape rect_duct = Rect \<and> toNum (rectW rect_duct) = 10 \<and> toNum (rectH rect_duct) = 8 \<and>
   Dh_in (calc rect_duct) = 80 / 9 \<and>
   eqRound (calc rect_duct) = 1.3 * 80 powr 0.625 / 18 powr 0.25 \<and>
   shape flat_rect_duct = Rect \<and> toNum (rectH flat_rect_duct) = 0 \<and>
   Dh_in (calc flat_rect_duct) = 0 \<and> eqRound (calc flat_rect_duct) = 0"
proof -
  have r: "shape rect_duct = Rect" "(10::real) = toNum (rectW rect_duct)"
    "(8::real) = toNum (rectH rect_duct)"
    by (simp_all add: rect_duct_def initial_duct_def toNum_def)
  have f: "shape flat_rect_duct = Rect" "(10::real) = toNum (rectW flat_rect_duct)"
    "(0::real) = toNum (rectH flat_rect_duct)"
    by (simp_all add: flat_rect_duct_def initial_duct_def toNum_def)
  show ?thesis
    using r f rect_diameters [OF r] rect_diameters [OF f] by simp
qed

text \<open>
  C8: in the mode that derives the airflow from the size, for a round duct of diameter
  d > 0, the area in square inches is pi (d / 2)^2 and the airflow is that area divided
  by 144, times the velocity input.
\<close>

theorem fromSize_round_area_airflow:
  assumes "mode s = FromSize" and "shape s = Round" and "roundDia s = Finite d" and "0 < d"
  shows "areaIn2 (calc s) = pi * (d / 2)\<^sup>2 \<and>
         usedCfm (calc s) = areaIn2 (calc s) / 144 * toNum (targetFpm s)"
  using assms
  by (simp add: calc_usedCfm calc_areaIn2 area_and_cfm_def roundAreaIn2_def Let_def toNum_def
      power2_eq_square)

text \<open>C8 at the initial state.\<close>

theorem fromSize_round_area_airflow_witness:
  "mode initial_duct = FromSize \<and> shape initial_duct = Round \<and>
   roundDia initial_duct = Finite 10 \<and> (0::real) < 10 \<and>
   areaIn2 (calc initial_duct) = 25 * pi \<and>
   usedCfm (calc initial_duct) = 25 * pi / 144 * 700"
proof -
  have h: "mode initial_duct = FromSize" "shape initial_duct = Round"
    "roundDia initial_duct = Finite 10" "(0::real) < 10"
    by (simp_all add: initial_duct_def)
  have v: "toNum (targetFpm initial_duct) = 700"
    by (simp add: initial_duct_def toNum_def)
  show ?thesis
    using h fromSize_round_area_airflow [OF h] by (simp add: v)
qed

section \<open>Run loss\<close>

lemma run_items:
  "items (run s dp) =
     map (\<lambda>k. \<lparr> key = k, count = toNum (fitCount s k), eq = toNum (fitEqLen s k),
                eqTotal = toNum (fitCount s k) * toNum (fitEqLen s k) \<rparr>) FITTING_KEYS"
  by (simp add: run_def Let_def)

lemma run_fittingsEq:
  "fittingsEq (run s dp) =
      toNum (fitCount s elbow90) * toNum (fitEqLen s elbow90)
    + toNum (fitCount s elbow45) * toNum (fitEqLen s elbow45)
    + toNum (fitCount s teeThru) * toNum (fitEqLen s teeThru)
    + toNum (fitCount s teeBranch) * toNum (fitEqLen s teeBranch)
    + toNum (fitCount s wye45) * toNum (fitEqLen s wye45)
    + toNum (fitCount s boot) * toNum (fitEqLen s boot)
    + toNum (fitCount s transition) * toNum (fitEqLen s transition)"
  by (simp add: run_def Let_def FITTING_KEYS_def)

lemma run_straight: "straight (run s dp) = toNum (straightLenFt s)"
  by (simp add: run_def Let_def)

lemma run_frictionPer100: "frictionPer100 (run s dp) = dp"
  by (simp add: run_def Let_def)

lemma run_totalEqLen: "totalEqLen (run s dp) = toNum (straightLenFt s) + fittingsEq (run s dp)"
  by (simp add: run_def Let_def)

lemma run_totalDrop:
  "totalDrop (run s dp) = js_times dp (Finite (totalEqLen (run s dp) / 100))"
  by (simp add: run_def Let_def)

lemma initial_fittingsEq: "fittingsEq (run initial_run dp) = 70"
  by (simp add: run_fittingsEq initial_run_def toNum_def DEFAULT_EQ_LEN_FT_def)

lemma initial_totalEqLen: "totalEqLen (run initial_run dp) = 120"
  by (simp add: run_totalEqLen initial_fittingsEq) (simp add: initial_run_def toNum_def)

text \<open>
  C5: for every straight length and every quantity and unit equivalent length of the
  seven fitting kinds, the fitting equivalent length is the sum over the seven kinds of
  quantity times unit length, the total equivalent length is the straight length plus that
  sum, and the total pressure drop is the friction rate times the total equivalent length
  over 100; with the default unit lengths, a straight length of 50 ft, two 90 degree
  elbows and one boot, the fittings give 70 ft, the total is 120 ft and the drop is the
  friction rate times 1.2.
\<close>

theorem run_totals:
  "fittingsEq (run s dp) =
      toNum (fitCount s elbow90) * toNum (fitEqLen s elbow90)
    + toNum (fitCount s elbow45) * toNum (fitEqLen s elbow45)
    + toNum (fitCount s teeThru) * toNum (fitEqLen s teeThru)
    + toNum (fitCount s teeBranch) * toNum (fitEqLen s teeBranch)
    + toNum (fitCount s wye45) * toNum (fitEqLen s wye45)
    + toNum (fitCount s boot) * toNum (fitEqLen s boot)
    + toNum (fitCount s transition) * toNum (fitEqLen s transition) \<and>
   totalEqLen (run s dp) = toNum (straightLenFt s) + fittingsEq (run s dp) \<and>
   totalDrop (run s dp) = js_times dp (Finite (totalEqLen (run s dp) / 100)) \<and>
   totalDrop (run s (Finite r)) = Finite (r * totalEqLen (run s (Finite r)) / 100) \<and>
   fitEqLen initial_run elbow90 = Finite 25 \<and> fitEqLen initial_run boot = Finite 20 \<and>
   fittingsEq (run initial_run (Finite r)) = 70 \<and>
   totalEqLen (run initial_run (Finite r)) = 120 \<and>
   totalDrop (run initial_run (Finite r)) = Finite (r * 1.2)"
proof (intro conjI)
  show "fittingsEq (run initial_run (Finite r)) = 70"
    by (rule initial_fittingsEq)
  show "totalEqLen (run initial_run (Finite r)) = 120"
    by (rule initial_totalEqLen)
  show "totalDrop (run s (Finite r)) = Finite (r * totalEqLen (run s (Finite r)) / 100)"
    by (simp add: run_totalDrop)
  show "totalDrop (run initial_run (Finite r)) = Finite (r * 1.2)"
    by (simp add: run_totalDrop initial_totalEqLen)
  show "totalDrop (run s dp) = js_times dp (Finite (totalEqLen (run s dp) / 100))"
    by (rule run_totalDrop)
  show "fitEqLen initial_run elbow90 = Finite 25" "fitEqLen initial_run boot = Finite 20"
    by (simp_all add: initial_run_def DEFAULT_EQ_LEN_FT_def)
qed (simp_all add: run_fittingsEq run_totalEqLen)

text \<open>
  C9: for two input states that differ only in the unit equivalent length of one fitting
  kind k, the row of every other kind (its quantity, unit length and contribution) is the
  same in both; the straight length and the friction rate are the same too.
\<close>

theorem fitting_update_local:
  assumes "straightLenFt s' = straightLenFt s" and "fitCount s' = fitCount s"
    and "\<forall>j. j \<noteq> k \<longrightarrow> fitEqLen s' j = fitEqLen s j"
  shows "(k' \<noteq> k \<longrightarrow>
            filter (\<lambda>it. key it = k') (items (run s' dp)) =
            filter (\<lambda>it. key it = k') (items (run s dp))) \<and>
         filter (\<lambda>it. key it \<noteq> k) (items (run s' dp)) =
         filter (\<lambda>it. key it \<noteq> k) (items (run s dp)) \<and>
         map key (items (run s dp)) = FITTING_KEYS \<and>
         straight (run s' dp) = straight (run s dp) \<and>
         frictionPer100 (run s' dp) = frictionPer100 (run s dp)"
proof (intro conjI impI)
  assume "k' \<noteq> k"
  then show "filter (\<lambda>it. key it = k') (items (run s' dp)) =
             filter (\<lambda>it. key it = k') (items (run s dp))"
    using assms by (cases k') (simp_all add: run_items FITTING_KEYS_def)
next
  show "filter (\<lambda>it. key it \<noteq> k) (items (run s' dp)) =
        filter (\<lambda>it. key it \<noteq> k) (items (run s dp))"
    using assms by (cases k) (simp_all add: run_items FITTING_KEYS_def)
next
  show "map key (items (run s dp)) = FITTING_KEYS"
    by (simp add: run_items FITTING_KEYS_def)
next
  show "straight (run s' dp) = straight (run s dp)"
    using assms by (simp add: run_straight)
next
  show "frictionPer100 (run s' dp) = frictionPer100 (run s dp)"
    by (simp add: run_frictionPer100)
qed

text \<open>
  C9 at the initial run with the unit length of the 90 degree elbow changed from 25 to
  40: the row of the boot is unchanged, and the elbow's contribution goes from 50 to 80.
\<close>

theorem fitting_update_local_witness:
  "straightLenFt edited_run = straightLenFt initial_run \<and>
   fitCount edited_run = fitCount initial_run \<and>
   fitEqLen edited_run = (fitEqLen initial_run) (elbow90 := Finite 40) \<and>
   boot \<noteq> elbow90 \<and>
   filter (\<lambda>it. key it = boot) (items (run edited_run (Finite 0.1))) =
   filter (\<lambda>it. key it = boot) (items (run initial_run (Finite 0.1))) \<and>
   filter (\<lambda>it. key it = boot) (items (run initial_run (Finite 0.1))) =
     [\<lparr> key = boot, count = 1, eq = 20, eqTotal = 20 \<rparr>] \<and>
   filter (\<lambda>it. key it = elbow90) (items (run initial_run (Finite 0.1))) =
     [\<lparr> key = elbow90, count = 2, eq = 25, eqTotal = 50 \<rparr>] \<and>
   filter (\<lambda>it. key it = elbow90) (items (run edited_run (Finite 0.1))) =
     [\<lparr> key = elbow90, count = 2, eq = 40, eqTotal = 80 \<rparr>]"
proof -
  have h1: "straightLenFt edited_run = straightLenFt initial_run"
    by (simp add: edited_run_def)
  have h2: "fitCount edited_run = fitCount initial_run"
    by (simp add: edited_run_def)
  have h3: "\<forall>j. j \<noteq> elbow90 \<longrightarrow> fitEqLen edited_run j = fitEqLen initial_run j"
    by (simp add: edited_run_def)
  have h4: "boot \<noteq> elbow90"
    by simp
  have h5: "fitEqLen edited_run = (fitEqLen initial_run) (elbow90 := Finite 40)"
    by (simp add: edited_run_def)
  have r1: "filter (\<lambda>it. key it = boot) (items (run initial_run (Finite 0.1))) =
     [\<lparr> key = boot, count = 1, eq = 20, eqTotal = 20 \<rparr>]"
    by (simp add: run_items FITTING_KEYS_def initial_run_def toNum_def DEFAULT_EQ_LEN_FT_def)
  have r2: "filter (\<lambda>it. key it = elbow90) (items (run initial_run (Finite 0.1))) =
     [\<lparr> key = elbow90, count = 2, eq = 25, eqTotal = 50 \<rparr>]"
    by (simp add: run_items FITTING_KEYS_def initial_run_def toNum_def DEFAULT_EQ_LEN_FT_def)
  have r3: "filter (\<lambda>it. key it = elbow90) (items (run edited_run (Finite 0.1))) =
     [\<lparr> key = elbow90, count = 2, eq = 40, eqTotal = 80 \<rparr>]"
    by (simp add: run_items FITTING_KEYS_def edited_run_def initial_run_def toNum_def)
  show ?thesis
    using h1 h2 h4 h5 r1 r2 r3
      fitting_update_local [OF h1 h2 h3, of boot "Finite 0.1"]
    by blast
qed

lemma laminar_area: "area_and_cfm laminar_duct = (5760, 800)"
  by (simp add: area_and_cfm_def laminar_duct_def initial_duct_def Let_def toNum_def)

lemma laminar_geometry: "fst (geometry laminar_duct) = 10"
  by (simp add: geometry_def laminar_duct_def initial_duct_def toNum_def)

lemma laminar_friction: "friction Galv 800 5760 10 = Finite (1708449769 / 15306884047461)"
  by (simp add: friction_def Let_def cfmToM3s_def inToM_def ftToM_def roughness_def
      frictionFactorDarcy_def js_div_def paToInWg_def)

lemma laminar_rate:
  "dpInWgPer100ft (calc laminar_duct) = Finite (1708449769 / 15306884047461)"
  unfolding calc_dpInWgPer100ft laminar_area laminar_geometry fst_conv snd_conv
  using laminar_friction by (simp add: laminar_duct_def initial_duct_def)

text \<open>
  C10: the run-loss computation has no test for negative inputs. A negative number in a
  field is read as that negative number, and with a negative straight length, a negative
  quantity or a negative unit length the total equivalent length and the total pressure
  drop are negative (here with the positive friction rate of the state
  \<^const>\<open>laminar_duct\<close>).
\<close>

theorem run_negative_totals:
  "toNum (Finite (- 200)) = - 200 \<and>
   dpInWgPer100ft (calc laminar_duct) = Finite (1708449769 / 15306884047461) \<and>
   totalEqLen (run negative_straight_run (dpInWgPer100ft (calc laminar_duct))) = - 130 \<and>
   totalDrop (run negative_straight_run (dpInWgPer100ft (calc laminar_duct))) =
     Finite (- (1708449769 / 15306884047461) * 1.3) \<and>
   totalEqLen (run negative_count_run (dpInWgPer100ft (calc laminar_duct))) = - 180 \<and>
   totalDrop (run negative_count_run (dpInWgPer100ft (calc laminar_duct))) =
     Finite (- (1708449769 / 15306884047461) * 1.8) \<and>
   totalEqLen (run negative_length_run (dpInWgPer100ft (calc laminar_duct))) = - 130 \<and>
   totalDrop (run negative_length_run (dpInWgPer100ft (calc laminar_duct))) =
     Finite (- (1708449769 / 15306884047461) * 1.3)"
  by (simp add: laminar_rate run_totalDrop run_totalEqLen run_fittingsEq)
     (simp add: negative_straight_run_def negative_count_run_def negative_length_run_def
       initial_run_def toNum_def DEFAULT_EQ_LEN_FT_def)

section \<open>The friction factor at its call\<close>

text \<open>
  The friction block with its call of the friction factor made explicit: the arguments
  are \<open>reynolds\<close>, the roughness of the material and the diameter in metres.
\<close>

lemma friction_factor_call:
  "friction m q a dh =
     paToInWg
       (if inToM dh > 0
        then js_times
               (js_times (frictionFactorDarcy (reynolds q a dh) (roughness m) (inToM dh))
                  (Finite (ftToM 100 / inToM dh)))
               (Finite (1.2 * (if (if a > 0 then a * (0.0254 * 0.0254) else 0) > 0
                               then cfmToM3s q / (if a > 0 then a * (0.0254 * 0.0254) else 0)
                               else 0)
                            * (if (if a > 0 then a * (0.0254 * 0.0254) else 0) > 0
                               then cfmToM3s q / (if a > 0 then a * (0.0254 * 0.0254) else 0)
                               else 0) / 2))
        else Finite 0)"
  by (simp add: friction_def reynolds_def Let_def)









section \<open>Rounding to binary64\<close>

lemma round_even_unique:
  assumes "of_int m - 1 / 2 < x" "x < of_int m + 1 / 2"
  shows "round_even x = m"
proof (cases "of_int m \<le> x")
  case True
  then have "\<lfloor>x\<rfloor> = m" using assms by linarith
  then show ?thesis using assms by (simp add: round_even_def Let_def)
next
  case False
  then have "\<lfloor>x\<rfloor> = m - 1" using assms by linarith
  then show ?thesis using assms False by (simp add: round_even_def Let_def)
qed

lemma round_even_error: "\<bar>of_int (round_even x) - x\<bar> \<le> 1 / 2"
  unfolding round_even_def Let_def by (auto; linarith)

lemma round_even_bounds: "\<lfloor>x\<rfloor> \<le> round_even x \<and> round_even x \<le> \<lfloor>x\<rfloor> + 1"
  unfolding round_even_def Let_def by auto

lemma floor_log2_binade:
  fixes k :: int
  assumes "2 powr of_int k \<le> x" "x < 2 powr (of_int k + 1)"
  shows "\<lfloor>log 2 x\<rfloor> = k"
proof -
  have "(0::real) < 2 powr of_int k" by simp
  then have x: "0 < x" using assms(1) by linarith
  have "of_int k \<le> log 2 x" using assms(1) x by (simp add: le_log_iff)
  moreover have "log 2 x < of_int k + 1" using assms(2) x by (simp add: log_less_iff)
  ultimately show ?thesis by linarith
qed

lemma ulp_exponent_binade:
  fixes k :: int
  assumes "- 1022 \<le> k" "2 powr of_int k \<le> x" "x < 2 powr (of_int k + 1)"
  shows "ulp_exponent x = k - 52"
proof -
  have "(0::real) < 2 powr of_int k" by simp
  then have "0 < x" using assms(2) by linarith
  then have "\<lfloor>log 2 \<bar>x\<bar>\<rfloor> = k" using floor_log2_binade [OF assms(2,3)] by simp
  then show ?thesis using assms(1) by (simp add: ulp_exponent_def)
qed

text \<open>
  A real number within half a unit in the last place of \<open>m * 2 ^ e\<close>, in the binade of
  that number, rounds to it.
\<close>

lemma round64_unique:
  fixes m e :: int
  assumes m: "m < 2 ^ 53" and e: "- 1074 \<le> e" "e \<le> 971"
    and b: "2 ^ 52 * 2 powr of_int e \<le> x"
    and lo: "(of_int m - 1 / 2) * 2 powr of_int e < x"
    and hi: "x < (of_int m + 1 / 2) * 2 powr of_int e"
  shows "round64 x = Finite (of_int m * 2 powr of_int e)"
proof -
  define u :: real where "u = 2 powr of_int e"
  have u: "0 < u" by (simp add: u_def)
  have p52: "2 powr of_int (e + 52) = 2 ^ 52 * u"
    by (simp add: u_def powr_add powr_numeral mult.commute)
  have p53: "2 powr (of_int (e + 52) + 1) = 2 ^ 53 * u"
    by (simp add: u_def powr_add powr_numeral mult.commute)
  have x0: "0 < x" using b u unfolding u_def [symmetric]
    by (meson less_le_trans mult_pos_pos zero_less_numeral zero_less_power)
  have mr: "of_int m \<le> (2 ^ 53 - 1 :: real)"
  proof -
    have "m \<le> 2 ^ 53 - 1" using m by simp
    then have "(of_int m :: real) \<le> of_int (2 ^ 53 - 1)" by (rule of_int_le_iff [THEN iffD2])
    then show ?thesis by simp
  qed
  have "x < (of_int m + 1 / 2) * u" using hi by (simp add: u_def)
  also have "\<dots> \<le> (2 ^ 53 - 1 + 1 / 2) * u" using mr u by (intro mult_right_mono) simp_all
  also have "\<dots> < 2 ^ 53 * u" using u by simp
  finally have xhi: "x < 2 ^ 53 * u" .
  have b1: "2 powr of_int (e + 52) \<le> x"
    by (subst p52) (use b in \<open>simp add: u_def\<close>)
  have b2: "x < 2 powr (of_int (e + 52) + 1)"
    by (subst p53) (rule xhi)
  have ue: "ulp_exponent x = e"
    using ulp_exponent_binade [OF _ b1 b2] e by simp
  have q: "of_int m - 1 / 2 < x / u" "x / u < of_int m + 1 / 2"
    using lo hi u by (simp_all add: u_def field_simps)
  have r: "round_even (x / u) = m" by (rule round_even_unique [OF q])
  have pos: "0 \<le> of_int m * u"
  proof -
    have "0 < x / u" using x0 u by simp
    then have "- 1 / 2 < (of_int m :: real)" using q(2) by linarith
    then have "0 \<le> m" by linarith
    then show ?thesis using u by simp
  qed
  have "of_int m * u \<le> (2 ^ 53 - 1) * u" using mr u by (intro mult_right_mono) simp_all
  also have "\<dots> < 2 ^ 53 * u" using u by simp
  also have "\<dots> \<le> 2 ^ 53 * 2 powr of_int 971"
    unfolding u_def using e by (intro mult_left_mono powr_mono) simp_all
  also have "\<dots> = 2 ^ 1024" by simp
  finally have fin: "\<bar>of_int m * u\<bar> < 2 ^ 1024" using pos by simp
  have "x \<noteq> 0" using x0 by simp
  then show ?thesis
    using fin by (simp add: round64_def Let_def ue r u_def [symmetric])
qed

lemma round64_below:
  fixes m :: int and k :: nat
  assumes "m < 2 ^ 53" "k \<le> 1074"
    and "2 ^ 52 \<le> x * 2 ^ k" and "2 * of_int m - 1 < 2 * (x * 2 ^ k)"
    and "2 * (x * 2 ^ k) < 2 * of_int m + 1"
  shows "round64 x = Finite (of_int m / 2 ^ k)"
proof -
  have p: "(2::real) powr (- real k) = 1 / 2 ^ k"
    by (simp add: powr_minus powr_realpow inverse_eq_divide)
  have "round64 x = Finite (of_int m * 2 powr of_int (- int k))"
    using assms by (intro round64_unique) (simp_all add: p field_simps)
  then show ?thesis by (simp add: p)
qed

lemma round64_above:
  fixes m :: int and k :: nat
  assumes "m < 2 ^ 53" "k \<le> 971"
    and "2 ^ 52 * 2 ^ k \<le> x" and "(2 * of_int m - 1) * 2 ^ k < 2 * x"
    and "2 * x < (2 * of_int m + 1) * 2 ^ k"
  shows "round64 x = Finite (of_int m * 2 ^ k)"
proof -
  have p: "(2::real) powr (real k) = 2 ^ k"
    by (simp add: powr_realpow)
  have "round64 x = Finite (of_int m * 2 powr of_int (int k))"
    using assms by (intro round64_unique) (simp_all add: p field_simps)
  then show ?thesis by (simp add: p)
qed

lemma round64_zero: "round64 0 = Finite 0"
  by (simp add: round64_def)

lemma round64_up:
  fixes e :: int
  assumes e: "- 1074 \<le> e" "e \<le> 970"
    and lo: "(2 ^ 53 - 1 / 2) * 2 powr of_int e < x"
    and hi: "x < 2 ^ 53 * 2 powr of_int e"
  shows "round64 x = Finite (2 ^ 53 * 2 powr of_int e)"
proof -
  define u :: real where "u = 2 powr of_int e"
  have u: "0 < u" by (simp add: u_def)
  have p52: "2 powr of_int (e + 52) = 2 ^ 52 * u"
    by (simp add: u_def powr_add powr_numeral mult.commute)
  have p53: "2 powr (of_int (e + 52) + 1) = 2 ^ 53 * u"
    by (simp add: u_def powr_add powr_numeral mult.commute)
  have lo': "(2 ^ 53 - 1 / 2) * u < x"
    unfolding u_def by (rule lo)
  have "2 ^ 52 * u \<le> (2 ^ 53 - 1 / 2) * u" using u by (intro mult_right_mono) simp_all
  then have b: "2 ^ 52 * u \<le> x" using lo' by linarith
  have x0: "0 < x" using b u
    by (meson less_le_trans mult_pos_pos zero_less_numeral zero_less_power)
  have b1: "2 powr of_int (e + 52) \<le> x"
    by (subst p52) (rule b)
  have b2: "x < 2 powr (of_int (e + 52) + 1)"
    by (subst p53) (use hi in \<open>simp add: u_def\<close>)
  have ue: "ulp_exponent x = e"
    using ulp_exponent_binade [OF _ b1 b2] e by simp
  have q: "of_int (2 ^ 53) - 1 / 2 < x / u" "x / u < of_int (2 ^ 53) + 1 / 2"
    using lo hi u by (simp_all add: u_def field_simps)
  have r: "round_even (x / u) = 2 ^ 53" by (rule round_even_unique [OF q])
  have "2 ^ 53 * u \<le> 2 ^ 53 * 2 powr of_int 970"
    unfolding u_def using e by (intro mult_left_mono powr_mono) simp_all
  also have "\<dots> < 2 ^ 1024" by simp
  finally have fin: "\<bar>2 ^ 53 * u\<bar> < 2 ^ 1024" using u by simp
  have "x \<noteq> 0" using x0 by simp
  then show ?thesis
    using fin by (simp add: round64_def Let_def ue r u_def [symmetric])
qed

lemma round64_one:
  assumes "1 - 1 / 2 ^ 54 < x" "x < 1 + 1 / 2 ^ 53"
  shows "round64 x = Finite 1"
proof (cases "1 \<le> x")
  case True
  have "round64 x = Finite (of_int (2 ^ 52) / 2 ^ 52)"
    using assms True by (intro round64_below) simp_all
  then show ?thesis
    by simp
next
  case False
  have "round64 x = Finite (2 ^ 53 * 2 powr of_int (- 53))"
    using assms False by (intro round64_up) (simp_all add: powr_neg_numeral)
  then show ?thesis
    by (simp add: powr_neg_numeral)
qed

text \<open>Overflow, the sign of a rounded number, and the rounding error in a binade.\<close>

lemma round64_overflow:
  assumes "2 ^ 1024 \<le> x"
  shows "round64 x = PosInfinity"
proof -
  have x0: "0 < x" using assms by (meson less_le_trans zero_less_numeral zero_less_power)
  define k where "k = \<lfloor>log 2 \<bar>x\<bar>\<rfloor>"
  have "1024 \<le> log 2 x" using assms x0 by (simp add: le_log_iff)
  then have k: "1024 \<le> k" unfolding k_def using x0 by (simp add: le_floor_iff)
  have kx: "2 powr of_int k \<le> x"
  proof -
    have "of_int k \<le> log 2 x" unfolding k_def using x0 by simp
    then show ?thesis using x0 by (simp add: le_log_iff)
  qed
  have ue: "ulp_exponent x = k - 52" using k by (simp add: ulp_exponent_def k_def)
  define u :: real where "u = 2 powr (of_int k - 52)"
  have u: "0 < u" by (simp add: u_def)
  have pk: "2 powr of_int k = 2 ^ 52 * u"
    by (simp add: u_def powr_diff)
  have "2 ^ 52 \<le> x / u" using kx u by (simp add: pk field_simps)
  then have "(2 ^ 52 :: int) \<le> \<lfloor>x / u\<rfloor>" by (simp add: le_floor_iff)
  then have "2 ^ 52 \<le> round_even (x / u)" using round_even_bounds [of "x / u"] by linarith
  then have "(of_int (2 ^ 52) :: real) \<le> of_int (round_even (x / u))"
    by (rule of_int_le_iff [THEN iffD2])
  then have "2 ^ 52 * u \<le> of_int (round_even (x / u)) * u"
    using u by (intro mult_right_mono) simp_all
  moreover have "(2::real) ^ 1024 \<le> 2 powr of_int k"
  proof -
    have "(2::real) powr 1024 \<le> 2 powr of_int k" using k by (intro powr_mono) simp_all
    then show ?thesis by (simp add: powr_numeral)
  qed
  ultimately have "2 ^ 1024 \<le> of_int (round_even (x / u)) * u" using pk by linarith
  then have "2 ^ 1024 \<le> \<bar>of_int (round_even (x / u)) * u\<bar>" by linarith
  then show ?thesis using x0 by (simp add: round64_def Let_def ue u_def [symmetric])
qed

lemma round64_not_positive:
  assumes "x \<le> 0"
  shows "round64 x = NegInfinity \<or> (\<exists>y\<le>0. round64 x = Finite y)"
proof (cases "x = 0")
  case True
  then show ?thesis by (simp add: round64_def)
next
  case False
  define u :: real where "u = 2 powr of_int (ulp_exponent x)"
  have u: "0 < u" by (simp add: u_def)
  have "x / u < 0" using False assms u by (simp add: field_simps)
  then have "\<lfloor>x / u\<rfloor> \<le> - 1" by linarith
  then have "round_even (x / u) \<le> 0" using round_even_bounds [of "x / u"] by linarith
  then have "(of_int (round_even (x / u)) :: real) \<le> 0" by simp
  then have "of_int (round_even (x / u)) * u \<le> 0" using u by (simp add: mult_le_0_iff)
  then show ?thesis using False assms
    by (simp add: round64_def Let_def u_def [symmetric])
qed

lemma round64_near:
  fixes e :: int
  assumes e: "- 1074 \<le> e" "e \<le> 970"
    and b: "2 ^ 52 * 2 powr of_int e \<le> x"
    and hi: "x < 2 ^ 53 * 2 powr of_int e"
  shows "\<exists>y. round64 x = Finite y \<and> \<bar>y - x\<bar> \<le> 2 powr of_int e / 2"
proof -
  define u :: real where "u = 2 powr of_int e"
  have u: "0 < u" by (simp add: u_def)
  have p52: "2 powr of_int (e + 52) = 2 ^ 52 * u"
    by (simp add: u_def powr_add powr_numeral mult.commute)
  have p53: "2 powr (of_int (e + 52) + 1) = 2 ^ 53 * u"
    by (simp add: u_def powr_add powr_numeral mult.commute)
  have x0: "0 < x" using b u unfolding u_def [symmetric]
    by (meson less_le_trans mult_pos_pos zero_less_numeral zero_less_power)
  have b1: "2 powr of_int (e + 52) \<le> x"
    by (subst p52) (use b in \<open>simp add: u_def\<close>)
  have b2: "x < 2 powr (of_int (e + 52) + 1)"
    by (subst p53) (use hi in \<open>simp add: u_def\<close>)
  have ue: "ulp_exponent x = e"
    using ulp_exponent_binade [OF _ b1 b2] e by simp
  define n where "n = round_even (x / u)"
  have "\<bar>of_int n - x / u\<bar> \<le> 1 / 2" unfolding n_def by (rule round_even_error)
  then have "\<bar>of_int n - x / u\<bar> * u \<le> 1 / 2 * u" using u by (intro mult_right_mono) simp_all
  moreover have "of_int n * u - x = (of_int n - x / u) * u"
    using u by (simp add: left_diff_distrib)
  then have "\<bar>of_int n * u - x\<bar> = \<bar>of_int n - x / u\<bar> * u"
    using u by (simp only: abs_mult abs_of_pos)
  ultimately have err: "\<bar>of_int n * u - x\<bar> \<le> u / 2"
    by simp
  have hi': "x < 2 ^ 53 * u"
    unfolding u_def by (rule hi)
  have "of_int n * u \<le> x + u / 2" using err by linarith
  also have "\<dots> < 2 ^ 53 * u + u" using hi' u by linarith
  also have "\<dots> = (2 ^ 53 + 1) * u" by (simp add: algebra_simps)
  also have "\<dots> \<le> (2 ^ 53 + 1) * 2 powr of_int 970"
    unfolding u_def using e by (intro mult_left_mono powr_mono) simp_all
  also have "\<dots> < 2 ^ 1024" by simp
  finally have up: "of_int n * u < 2 ^ 1024" .
  have b': "2 ^ 52 * u \<le> x"
    unfolding u_def by (rule b)
  have "u / 2 \<le> 2 ^ 52 * u"
    using u by simp
  then have "0 \<le> x - u / 2"
    using b' by linarith
  then have "0 \<le> of_int n * u" using err by linarith
  then have fin: "\<bar>of_int n * u\<bar> < 2 ^ 1024" using up by simp
  have "x \<noteq> 0" using x0 by simp
  then have "round64 x = Finite (of_int n * u)"
    using fin by (simp add: round64_def Let_def ue n_def u_def [symmetric])
  then show ?thesis using err by (auto simp add: u_def)
qed

section \<open>The literals of the program in binary64\<close>

lemma lit_cfmToM3s: "round64 (0.00047194745) = Finite (8705893826389835 / 18446744073709551616)"
proof -
  have "round64 (0.00047194745) = Finite (of_int 8705893826389835 / 2 ^ 64)"
    by (rule round64_below) simp_all
  then show ?thesis
    by simp
qed

lemma lit_inToM: "round64 (0.0254) = Finite (3660525777126739 / 144115188075855872)"
proof -
  have "round64 (0.0254) = Finite (of_int 7321051554253478 / 2 ^ 58)"
    by (rule round64_below) simp_all
  then show ?thesis
    by simp
qed

lemma lit_ftToM: "round64 (0.3048) = Finite (5490788665690109 / 18014398509481984)"
proof -
  have "round64 (0.3048) = Finite (of_int 5490788665690109 / 2 ^ 54)"
    by (rule round64_below) simp_all
  then show ?thesis
    by simp
qed

lemma lit_paToInWg: "round64 (249.0889) = Finite (8764036540797865 / 35184372088832)"
proof -
  have "round64 (249.0889) = Finite (of_int 8764036540797865 / 2 ^ 45)"
    by (rule round64_below) simp_all
  then show ?thesis
    by simp
qed

lemma lit_rho: "round64 (1.2) = Finite (5404319552844595 / 4503599627370496)"
proof -
  have "round64 (1.2) = Finite (of_int 5404319552844595 / 2 ^ 52)"
    by (rule round64_below) simp_all
  then show ?thesis
    by simp
qed

lemma lit_mu: "round64 (1.81 / 10 ^ 5) = Finite (2671088541873143 / 147573952589676412928)"
proof -
  have "round64 (1.81 / 10 ^ 5) = Finite (of_int 5342177083746286 / 2 ^ 68)"
    by (rule round64_below) simp_all
  then show ?thesis
    by simp
qed

lemma lit_galv: "round64 (0.00015) = Finite (5534023222112865 / 36893488147419103232)"
proof -
  have "round64 (0.00015) = Finite (of_int 5534023222112865 / 2 ^ 65)"
    by (rule round64_below) simp_all
  then show ?thesis
    by simp
qed

lemma lit_3_7: "round64 (3.7) = Finite (4165829655317709 / 1125899906842624)"
proof -
  have "round64 (3.7) = Finite (of_int 8331659310635418 / 2 ^ 51)"
    by (rule round64_below) simp_all
  then show ?thesis
    by simp
qed

lemma lit_5_74: "round64 (5.74) = Finite (3231332732638331 / 562949953421312)"
proof -
  have "round64 (5.74) = Finite (of_int 6462665465276662 / 2 ^ 50)"
    by (rule round64_below) simp_all
  then show ?thesis
    by simp
qed

lemma lit_0_9: "round64 (0.9) = Finite (8106479329266893 / 9007199254740992)"
proof -
  have "round64 (0.9) = Finite (of_int 8106479329266893 / 2 ^ 53)"
    by (rule round64_below) simp_all
  then show ?thesis
    by simp
qed

lemma lit_0_25: "round64 (0.25) = Finite (1 / 4)"
proof -
  have "round64 (0.25) = Finite (of_int 4503599627370496 / 2 ^ 54)"
    by (rule round64_below) simp_all
  then show ?thesis
    by simp
qed

section \<open>Degenerate inputs\<close>

lemma calc64_usedCfm: "usedCfm64 (calc64 lib s) = snd (area_and_cfm64 s)"
  by (simp add: calc64_def Let_def)

lemma calc64_areaIn2: "areaIn2_64 (calc64 lib s) = fst (area_and_cfm64 s)"
  by (simp add: calc64_def Let_def)

lemma calc64_areaFt2: "areaFt2_64 (calc64 lib s) = js_div64 (fst (area_and_cfm64 s)) (Finite 144)"
  by (simp add: calc64_def Let_def)

lemma calc64_velFpm:
  "velFpm64 (calc64 lib s) =
     (if js_gt (js_div64 (fst (area_and_cfm64 s)) (Finite 144)) 0
      then js_div64 (snd (area_and_cfm64 s)) (js_div64 (fst (area_and_cfm64 s)) (Finite 144))
      else Finite 0)"
  by (simp add: calc64_def Let_def)

lemma calc64_dpInWgPer100ft:
  "dpInWgPer100ft64 (calc64 lib s) =
     friction64 lib (material s) (snd (area_and_cfm64 s)) (fst (area_and_cfm64 s))
       (fst (geometry64 lib s))"
  by (simp add: calc64_def Let_def)

text \<open>The roundings on the way at the five states below.\<close>

lemma degenerate_step_half: "round64 (10 / 2) = Finite (5)"
proof -
  have "round64 (10 / 2) = Finite (of_int 5629499534213120 / 2 ^ 50)"
    by (rule round64_below) simp_all
  then show ?thesis
    by simp
qed

lemma degenerate_step_pi_r: "round64 (884279719003555 / 281474976710656 * 5) = Finite (4421398595017775 / 281474976710656)"
proof -
  have "round64 (884279719003555 / 281474976710656 * 5) = Finite (of_int 8842797190035550 / 2 ^ 49)"
    by (rule round64_below) simp_all
  then show ?thesis
    by simp
qed

lemma degenerate_step_area: "round64 (4421398595017775 / 281474976710656 * 5) = Finite (5526748243772219 / 70368744177664)"
proof -
  have "round64 (4421398595017775 / 281474976710656 * 5) = Finite (of_int 5526748243772219 / 2 ^ 46)"
    by (rule round64_below) simp_all
  then show ?thesis
    by simp
qed

lemma degenerate_step_ft2: "round64 (800 / 700) = Finite (2573485501354569 / 2251799813685248)"
proof -
  have "round64 (800 / 700) = Finite (of_int 5146971002709138 / 2 ^ 52)"
    by (rule round64_below) simp_all
  then show ?thesis
    by simp
qed

lemma degenerate_step_in2: "round64 (2573485501354569 / 2251799813685248 * 144) = Finite (1447585594511945 / 8796093022208)"
proof -
  have "round64 (2573485501354569 / 2251799813685248 * 144) = Finite (of_int 5790342378047780 / 2 ^ 45)"
    by (rule round64_below) simp_all
  then show ?thesis
    by simp
qed

lemma degenerate_step_ft2b: "round64 (1447585594511945 / 8796093022208 / 144) = Finite (2573485501354569 / 2251799813685248)"
proof -
  have "round64 (1447585594511945 / 8796093022208 / 144) = Finite (of_int 5146971002709138 / 2 ^ 52)"
    by (rule round64_below) simp_all
  then show ?thesis
    by simp
qed

lemma degenerate_step_vel: "round64 (800 / (2573485501354569 / 2251799813685248)) = Finite (700)"
proof -
  have "round64 (800 / (2573485501354569 / 2251799813685248)) = Finite (of_int 6157265115545600 / 2 ^ 43)"
    by (rule round64_below) simp_all
  then show ?thesis
    by simp
qed

lemma degenerate_step_tiny: "round64 (1 / 10 ^ 306) = Finite (6325070415853457 / 2 ^ 1069)"
proof -
  have "round64 (1 / 10 ^ 306) = Finite (of_int 6325070415853457 / 2 ^ 1069)"
    by (rule round64_below) simp_all
  then show ?thesis
    by simp
qed

lemma degenerate_step_tinyD: "round64 (6325070415853457 / 2 ^ 1069 * (3660525777126739 / 144115188075855872)) = Finite (2570508617002845 / 2 ^ 1073)"
proof -
  have "round64 (6325070415853457 / 2 ^ 1069 * (3660525777126739 / 144115188075855872)) = Finite (of_int 5141017234005690 / 2 ^ 1074)"
    by (rule round64_below) simp_all
  then show ?thesis
    by simp
qed

lemma infinite_step_L: "round64 (100 * (5490788665690109 / 18014398509481984)) = Finite (8579357290140795 / 281474976710656)"
proof -
  have "round64 (100 * (5490788665690109 / 18014398509481984)) = Finite (of_int 8579357290140795 / 2 ^ 48)"
    by (rule round64_below) simp_all
  then show ?thesis
    by simp
qed

lemma degenerate_step_huge: "round64 (10 ^ 200) = Finite (2941796710330669 * 2 ^ 613)"
proof -
  have "round64 (10 ^ 200) = Finite (of_int 5883593420661338 * 2 ^ 612)"
    by (rule round64_above) simp_all
  then show ?thesis
    by simp
qed

lemma degenerate_step_huge_half: "round64 (2941796710330669 * 2 ^ 613 / 2) = Finite (2941796710330669 * 2 ^ 612)"
proof -
  have "round64 (2941796710330669 * 2 ^ 613 / 2) = Finite (of_int 5883593420661338 * 2 ^ 611)"
    by (rule round64_above) simp_all
  then show ?thesis
    by simp
qed

lemma degenerate_step_huge_pi: "round64 (884279719003555 / 281474976710656 * (2941796710330669 * 2 ^ 612)) = Finite (4620963466764725 * 2 ^ 613)"
proof -
  have "round64 (884279719003555 / 281474976710656 * (2941796710330669 * 2 ^ 612)) = Finite (of_int 4620963466764725 * 2 ^ 613)"
    by (rule round64_above) simp_all
  then show ?thesis
    by simp
qed

lemma roundArea_ten: "roundAreaIn2_64 (Finite 10) = Finite (5526748243772219 / 70368744177664)"
  unfolding roundAreaIn2_64_def Let_def Math_PI64_def
  using degenerate_step_half degenerate_step_pi_r degenerate_step_area by simp

lemma zero_velocity_area:
  "areaIn2_64 (calc64 lib zero_velocity_duct) = Finite (5526748243772219 / 70368744177664)"
  by (simp add: calc64_areaIn2 area_and_cfm64_def Let_def zero_velocity_duct_def initial_duct_def
      toNum_def js_gt_def roundArea_ten)

lemma zero_diameter_cfm_area:
  "area_and_cfm64 zero_diameter_cfm_duct = (Finite (1447585594511945 / 8796093022208), Finite 800)"
  using degenerate_step_ft2 degenerate_step_in2
  by (simp add: area_and_cfm64_def Let_def zero_diameter_cfm_duct_def initial_duct_def toNum_def
      js_gt_def)

lemma zero_diameter_cfm_results:
  "areaIn2_64 (calc64 lib zero_diameter_cfm_duct) = Finite (1447585594511945 / 8796093022208) \<and>
   velFpm64 (calc64 lib zero_diameter_cfm_duct) = Finite 700 \<and>
   usedCfm64 (calc64 lib zero_diameter_cfm_duct) = Finite 800"
  unfolding calc64_areaIn2 calc64_velFpm calc64_usedCfm zero_diameter_cfm_area fst_conv snd_conv
  using degenerate_step_ft2b degenerate_step_vel by (simp add: js_gt_def)

lemma zero_velocity_cfm_airflow:
  "usedCfm64 (calc64 lib zero_velocity_cfm_duct) = Finite 800"
  by (simp add: calc64_usedCfm area_and_cfm64_def Let_def zero_velocity_cfm_duct_def
      initial_duct_def toNum_def js_gt_def)

lemma tiny_area: "area_and_cfm64 zero_velocity_tiny_duct = (Finite 0, Finite 800)"
  by (simp add: area_and_cfm64_def Let_def zero_velocity_tiny_duct_def initial_duct_def toNum_def
      js_gt_def round64_zero)

lemma tiny_roundDia: "roundDia zero_velocity_tiny_duct = Finite (6325070415853457 / 2 ^ 1069)"
  unfolding zero_velocity_tiny_duct_def degenerate_step_tiny by simp

lemma tiny_geometry: "fst (geometry64 lib zero_velocity_tiny_duct) = Finite (6325070415853457 / 2 ^ 1069)"
proof -
  have "shape zero_velocity_tiny_duct = Round"
    by (simp add: zero_velocity_tiny_duct_def initial_duct_def)
  then show ?thesis
    by (simp add: geometry64_def tiny_roundDia toNum_def)
qed

lemma tiny_friction:
  "friction64 lib Galv (Finite 800) (Finite 0) (Finite (6325070415853457 / 2 ^ 1069)) = NaN"
proof -
  have D: "inToM64 (Finite (6325070415853457 / 2 ^ 1069)) = Finite (2570508617002845 / 2 ^ 1073)"
    unfolding inToM64_def lit_inToM using degenerate_step_tinyD by simp
  have A: "(if js_gt (Finite 0) 0
            then js_mul64 (Finite 0) (js_mul64 (round64 0.0254) (round64 0.0254))
            else Finite 0) = Finite 0"
    by (simp add: js_gt_def)
  have V: "(if js_gt (Finite 0) 0 then js_div64 (cfmToM3s64 (Finite 800)) (Finite 0) else Finite 0)
             = Finite 0"
    by (simp add: js_gt_def)
  have R: "(if js_gt (round64 (1.81 / 10 ^ 5)) 0
            then js_div64 (js_mul64 (js_mul64 (round64 1.2) (Finite 0)) (Finite (2570508617002845 / 2 ^ 1073)))
                          (round64 (1.81 / 10 ^ 5))
            else Finite 0) = Finite 0"
    unfolding lit_mu lit_rho by (simp add: js_gt_def round64_zero)
  have f: "frictionFactorDarcy64 lib (Finite 0) (roughness64 Galv) (Finite (2570508617002845 / 2 ^ 1073)) = Finite 0"
    by (simp add: frictionFactorDarcy64_def js_le_def)
  have "round64 (8579357290140795 / 281474976710656 / (2570508617002845 / 2 ^ 1073)) = PosInfinity"
    by (rule round64_overflow) simp
  then have LD: "js_div64 (ftToM64 (Finite 100)) (Finite (2570508617002845 / 2 ^ 1073)) = PosInfinity"
    unfolding ftToM64_def lit_ftToM using infinite_step_L by simp
  have K: "js_div64 (js_mul64 (js_mul64 (round64 1.2) (Finite 0)) (Finite 0)) (Finite 2) = Finite 0"
    unfolding lit_rho by (simp add: round64_zero)
  show ?thesis
    unfolding friction64_def Let_def D A V R f LD K paToInWg64_def lit_paToInWg
    by (simp add: js_gt_def)
qed

lemma tiny_friction_rate: "dpInWgPer100ft64 (calc64 lib zero_velocity_tiny_duct) = NaN"
proof -
  have "material zero_velocity_tiny_duct = Galv"
    by (simp add: zero_velocity_tiny_duct_def initial_duct_def)
  then show ?thesis
    unfolding calc64_dpInWgPer100ft tiny_area tiny_geometry fst_conv snd_conv
    using tiny_friction [of lib] by simp
qed

lemma huge_roundDia: "roundDia zero_velocity_huge_duct = Finite (2941796710330669 * 2 ^ 613)"
  unfolding zero_velocity_huge_duct_def degenerate_step_huge by simp

lemma huge_roundArea: "roundAreaIn2_64 (Finite (2941796710330669 * 2 ^ 613)) = PosInfinity"
proof -
  have r: "js_div64 (Finite (2941796710330669 * 2 ^ 613)) (Finite 2) = Finite (2941796710330669 * 2 ^ 612)"
    using degenerate_step_huge_half by simp
  have p: "js_mul64 Math_PI64 (Finite (2941796710330669 * 2 ^ 612)) = Finite (4620963466764725 * 2 ^ 613)"
    unfolding Math_PI64_def using degenerate_step_huge_pi by simp
  have "round64 (4620963466764725 * 2 ^ 613 * (2941796710330669 * 2 ^ 612)) = PosInfinity"
    by (rule round64_overflow) simp
  then have "js_mul64 (Finite (4620963466764725 * 2 ^ 613)) (Finite (2941796710330669 * 2 ^ 612)) = PosInfinity"
    by simp
  then show ?thesis
    unfolding roundAreaIn2_64_def Let_def r p .
qed

lemma huge_area: "area_and_cfm64 zero_velocity_huge_duct = (PosInfinity, NaN)"
proof -
  have s: "mode zero_velocity_huge_duct = FromSize" "shape zero_velocity_huge_duct = Round"
    "targetFpm zero_velocity_huge_duct = Finite 0"
    by (simp_all add: zero_velocity_huge_duct_def initial_duct_def)
  have d: "js_gt (Finite (2941796710330669 * 2 ^ 613)) 0"
    by (simp add: js_gt_def)
  show ?thesis
    unfolding area_and_cfm64_def Let_def
    using d huge_roundArea by (simp add: s huge_roundDia toNum_def js_gt_def)
qed

lemma huge_results:
  "areaIn2_64 (calc64 lib zero_velocity_huge_duct) = PosInfinity \<and>
   usedCfm64 (calc64 lib zero_velocity_huge_duct) = NaN \<and>
   velFpm64 (calc64 lib zero_velocity_huge_duct) = NaN"
  unfolding calc64_areaIn2 calc64_velFpm calc64_usedCfm huge_area fst_conv snd_conv
  by (simp add: js_gt_def)

text \<open>
  C1 states that whenever a dimension input or the velocity input is zero, negative or
  not a number, the area, the velocity, the airflow and the friction rate are all 0.
  The program does not do that. With the velocity at 0 in the mode that derives the
  airflow from the size, the area is still that of the 10 inch duct. With the diameter at
  0 in the mode that derives the size from the airflow, the area, the velocity and the
  airflow are those of the entered airflow; with a velocity that is not a number in that
  mode, the airflow is the entered one. With the velocity at 0 and a diameter of 1e-306
  in that mode, the quotient L / D overflows and the friction rate is 0 times an
  infinity, \<^verbatim>\<open>NaN\<close>. With the velocity at 0 and a diameter of 1e200 in the first mode, the
  area overflows, and airflow and velocity are \<^verbatim>\<open>NaN\<close>.
\<close>

theorem degenerate_input_not_all_zero:
  "nonPositive (targetFpm zero_velocity_duct) \<and>
   areaIn2_64 (calc64 exact_library zero_velocity_duct) = Finite (5526748243772219 / 70368744177664) \<and>
   nonPositive (roundDia zero_diameter_cfm_duct) \<and>
   areaIn2_64 (calc64 exact_library zero_diameter_cfm_duct) = Finite (1447585594511945 / 8796093022208) \<and>
   velFpm64 (calc64 exact_library zero_diameter_cfm_duct) = Finite 700 \<and>
   usedCfm64 (calc64 exact_library zero_diameter_cfm_duct) = Finite 800 \<and>
   nonPositive (targetFpm zero_velocity_cfm_duct) \<and>
   usedCfm64 (calc64 exact_library zero_velocity_cfm_duct) = Finite 800 \<and>
   nonPositive (targetFpm zero_velocity_tiny_duct) \<and>
   dpInWgPer100ft64 (calc64 exact_library zero_velocity_tiny_duct) = NaN \<and>
   nonPositive (targetFpm zero_velocity_huge_duct) \<and>
   areaIn2_64 (calc64 exact_library zero_velocity_huge_duct) = PosInfinity \<and>
   usedCfm64 (calc64 exact_library zero_velocity_huge_duct) = NaN \<and>
   velFpm64 (calc64 exact_library zero_velocity_huge_duct) = NaN"
proof -
  have "nonPositive (targetFpm zero_velocity_duct)"
    "nonPositive (roundDia zero_diameter_cfm_duct)"
    "nonPositive (targetFpm zero_velocity_cfm_duct)"
    "nonPositive (targetFpm zero_velocity_tiny_duct)"
    "nonPositive (targetFpm zero_velocity_huge_duct)"
    by (simp_all add: nonPositive_def zero_velocity_duct_def zero_diameter_cfm_duct_def
        zero_velocity_cfm_duct_def zero_velocity_tiny_duct_def zero_velocity_huge_duct_def
        initial_duct_def)
  then show ?thesis
    using zero_velocity_area [of exact_library] zero_diameter_cfm_results [of exact_library]
      zero_velocity_cfm_airflow [of exact_library] tiny_friction_rate [of exact_library]
      huge_results [of exact_library]
    by blast
qed

lemma inToM64_not_positive:
  assumes "x \<le> 0"
  shows "\<not> js_gt (inToM64 (Finite x)) 0"
proof -
  have "x * (3660525777126739 / 144115188075855872) \<le> 0"
    using assms by (simp add: mult_le_0_iff)
  then show ?thesis
    unfolding inToM64_def lit_inToM
    using round64_not_positive [of "x * (3660525777126739 / 144115188075855872)"]
    by (auto simp add: js_gt_def)
qed

lemma paToInWg64_zero: "paToInWg64 (Finite 0) = Finite 0"
  unfolding paToInWg64_def lit_paToInWg by (simp add: round64_zero)

lemma friction64_no_diameter: "x \<le> 0 \<Longrightarrow> friction64 lib m q a (Finite x) = Finite 0"
  unfolding friction64_def Let_def by (simp add: inToM64_not_positive paToInWg64_zero)

lemma geometry64_badDimension:
  assumes "badDimension s"
  shows "\<exists>x\<le>0. fst (geometry64 lib s) = Finite x"
  using assms
  by (auto simp add: badDimension_def geometry64_def Let_def nonPositive_toNum js_gt_def
      split: if_splits)

lemma area64_badDimension:
  assumes "mode s = FromSize" "badDimension s"
  shows "area_and_cfm64 s = (Finite 0, Finite 0)"
  using assms
  by (auto simp add: badDimension_def area_and_cfm64_def Let_def nonPositive_toNum js_gt_def
      round64_zero split: if_splits)

lemma area64_bad_velocity:
  assumes "mode s = FromCfm" "nonPositive (targetFpm s)"
  shows "fst (area_and_cfm64 s) = Finite 0"
  using assms
  by (simp add: area_and_cfm64_def Let_def nonPositive_toNum js_gt_def round64_zero)

text \<open>
  C1, amended. For every input state and every Math library: if a dimension input of the
  selected shape is zero, negative or not a number, the friction rate is 0, and in the
  mode that derives the airflow from the size the area, the velocity and the airflow are
  0 as well; if the velocity input is zero, negative or not a number in the mode that
  derives the size from the airflow, the area and the velocity are 0. Each of these
  results is the literal 0 of a failed test, or 0 times or over a finite constant.
\<close>

theorem degenerate_input_zero_results:
  "(badDimension s \<longrightarrow> dpInWgPer100ft64 (calc64 lib s) = Finite 0) \<and>
   (mode s = FromSize \<and> badDimension s \<longrightarrow>
      areaIn2_64 (calc64 lib s) = Finite 0 \<and> areaFt2_64 (calc64 lib s) = Finite 0 \<and>
      velFpm64 (calc64 lib s) = Finite 0 \<and> usedCfm64 (calc64 lib s) = Finite 0) \<and>
   (mode s = FromCfm \<and> nonPositive (targetFpm s) \<longrightarrow>
      areaIn2_64 (calc64 lib s) = Finite 0 \<and> areaFt2_64 (calc64 lib s) = Finite 0 \<and>
      velFpm64 (calc64 lib s) = Finite 0)"
proof (intro conjI impI)
  assume "badDimension s"
  then obtain x where "x \<le> 0" "fst (geometry64 lib s) = Finite x"
    using geometry64_badDimension by blast
  then show "dpInWgPer100ft64 (calc64 lib s) = Finite 0"
    by (simp add: calc64_dpInWgPer100ft friction64_no_diameter)
next
  assume "mode s = FromSize \<and> badDimension s"
  then have "area_and_cfm64 s = (Finite 0, Finite 0)"
    by (simp add: area64_badDimension)
  then show "areaIn2_64 (calc64 lib s) = Finite 0" "areaFt2_64 (calc64 lib s) = Finite 0"
    "velFpm64 (calc64 lib s) = Finite 0" "usedCfm64 (calc64 lib s) = Finite 0"
    by (simp_all add: calc64_areaIn2 calc64_areaFt2 calc64_velFpm calc64_usedCfm round64_zero
        js_gt_def)
next
  assume "mode s = FromCfm \<and> nonPositive (targetFpm s)"
  then have "fst (area_and_cfm64 s) = Finite 0"
    by (simp add: area64_bad_velocity)
  then show "areaIn2_64 (calc64 lib s) = Finite 0" "areaFt2_64 (calc64 lib s) = Finite 0"
    "velFpm64 (calc64 lib s) = Finite 0"
    by (simp_all add: calc64_areaIn2 calc64_areaFt2 calc64_velFpm round64_zero js_gt_def)
qed

text \<open>
  The amended C1 at a zero diameter in the first mode, and at a zero diameter and a
  velocity that is not a number in the second.
\<close>

theorem degenerate_input_zero_results_witness:
  "badDimension zero_diameter_duct \<and> mode zero_diameter_duct = FromSize \<and>
   dpInWgPer100ft64 (calc64 exact_library zero_diameter_duct) = Finite 0 \<and>
   areaIn2_64 (calc64 exact_library zero_diameter_duct) = Finite 0 \<and>
   areaFt2_64 (calc64 exact_library zero_diameter_duct) = Finite 0 \<and>
   velFpm64 (calc64 exact_library zero_diameter_duct) = Finite 0 \<and>
   usedCfm64 (calc64 exact_library zero_diameter_duct) = Finite 0 \<and>
   badDimension zero_diameter_cfm_duct \<and>
   dpInWgPer100ft64 (calc64 exact_library zero_diameter_cfm_duct) = Finite 0 \<and>
   mode zero_velocity_cfm_duct = FromCfm \<and> nonPositive (targetFpm zero_velocity_cfm_duct) \<and>
   areaIn2_64 (calc64 exact_library zero_velocity_cfm_duct) = Finite 0 \<and>
   areaFt2_64 (calc64 exact_library zero_velocity_cfm_duct) = Finite 0 \<and>
   velFpm64 (calc64 exact_library zero_velocity_cfm_duct) = Finite 0"
proof -
  have a: "badDimension zero_diameter_duct \<and> mode zero_diameter_duct = FromSize"
    by (simp add: zero_diameter_duct_def initial_duct_def badDimension_def nonPositive_def)
  have c: "badDimension zero_diameter_cfm_duct"
    by (simp add: zero_diameter_cfm_duct_def initial_duct_def badDimension_def nonPositive_def)
  have d: "mode zero_velocity_cfm_duct = FromCfm \<and> nonPositive (targetFpm zero_velocity_cfm_duct)"
    by (simp add: zero_velocity_cfm_duct_def initial_duct_def nonPositive_def)
  show ?thesis
    using a c d
      degenerate_input_zero_results [of zero_diameter_duct exact_library]
      degenerate_input_zero_results [of zero_diameter_cfm_duct exact_library]
      degenerate_input_zero_results [of zero_velocity_cfm_duct exact_library]
    by blast
qed

section \<open>An infinite friction rate\<close>

text \<open>The text of the diameter field, and the roundings on the way.\<close>

lemma lit_dia: "round64 (1599329556356756 / 10 ^ 18) = Finite (7375605753908129 / 4611686018427387904)"
proof -
  have "round64 (1599329556356756 / 10 ^ 18) = Finite (of_int 7375605753908129 / 2 ^ 62)"
    by (rule round64_below) simp_all
  then show ?thesis
    by simp
qed

lemma infinite_step_areaFt2: "round64 (800 / 500000) = Finite (7378697629483821 / 4611686018427387904)"
proof -
  have "round64 (800 / 500000) = Finite (of_int 7378697629483821 / 2 ^ 62)"
    by (rule round64_below) simp_all
  then show ?thesis
    by simp
qed

lemma infinite_step_areaIn2: "round64 (7378697629483821 / 4611686018427387904 * 144) = Finite (8301034833169299 / 36028797018963968)"
proof -
  have "round64 (7378697629483821 / 4611686018427387904 * 144) = Finite (of_int 8301034833169299 / 2 ^ 55)"
    by (rule round64_below) simp_all
  then show ?thesis
    by simp
qed

lemma infinite_step_Q: "round64 (800 * (8705893826389835 / 18446744073709551616)) = Finite (6801479551867059 / 18014398509481984)"
proof -
  have "round64 (800 * (8705893826389835 / 18446744073709551616)) = Finite (of_int 6801479551867059 / 2 ^ 54)"
    by (rule round64_below) simp_all
  then show ?thesis
    by simp
qed

lemma infinite_step_sq: "round64 (3660525777126739 / 144115188075855872 * (3660525777126739 / 144115188075855872)) = Finite (5950550703297227 / 9223372036854775808)"
proof -
  have "round64 (3660525777126739 / 144115188075855872 * (3660525777126739 / 144115188075855872)) = Finite (of_int 5950550703297227 / 2 ^ 63)"
    by (rule round64_below) simp_all
  then show ?thesis
    by simp
qed

lemma infinite_step_A: "round64 (8301034833169299 / 36028797018963968 * (5950550703297227 / 9223372036854775808)) = Finite (5484027528158725 / 36893488147419103232)"
proof -
  have "round64 (8301034833169299 / 36028797018963968 * (5950550703297227 / 9223372036854775808)) = Finite (of_int 5484027528158725 / 2 ^ 65)"
    by (rule round64_below) simp_all
  then show ?thesis
    by simp
qed

lemma infinite_step_V: "round64 (6801479551867059 / 18014398509481984 / (5484027528158725 / 36893488147419103232)) = Finite (174547473424387 / 68719476736)"
proof -
  have "round64 (6801479551867059 / 18014398509481984 / (5484027528158725 / 36893488147419103232)) = Finite (of_int 5585519149580384 / 2 ^ 41)"
    by (rule round64_below) simp_all
  then show ?thesis
    by simp
qed

lemma infinite_step_D: "round64 (7375605753908129 / 4611686018427387904 * (3660525777126739 / 144115188075855872)) = Finite (5994892356776527 / 147573952589676412928)"
proof -
  have "round64 (7375605753908129 / 4611686018427387904 * (3660525777126739 / 144115188075855872)) = Finite (of_int 5994892356776527 / 2 ^ 67)"
    by (rule round64_below) simp_all
  then show ?thesis
    by simp
qed

lemma infinite_step_rhoV: "round64 (5404319552844595 / 4503599627370496 * (174547473424387 / 68719476736)) = Finite (6702622979496461 / 2199023255552)"
proof -
  have "round64 (5404319552844595 / 4503599627370496 * (174547473424387 / 68719476736)) = Finite (of_int 6702622979496461 / 2 ^ 41)"
    by (rule round64_below) simp_all
  then show ?thesis
    by simp
qed

lemma infinite_step_rhoVD: "round64 (6702622979496461 / 2199023255552 * (5994892356776527 / 147573952589676412928)) = Finite (1115260752363957 / 9007199254740992)"
proof -
  have "round64 (6702622979496461 / 2199023255552 * (5994892356776527 / 147573952589676412928)) = Finite (of_int 8922086018911656 / 2 ^ 56)"
    by (rule round64_below) simp_all
  then show ?thesis
    by simp
qed

lemma infinite_step_Re: "round64 (1115260752363957 / 9007199254740992 / (2671088541873143 / 147573952589676412928)) = Finite (940194948619153 / 137438953472)"
proof -
  have "round64 (1115260752363957 / 9007199254740992 / (2671088541873143 / 147573952589676412928)) = Finite (of_int 7521559588953224 / 2 ^ 40)"
    by (rule round64_below) simp_all
  then show ?thesis
    by simp
qed

lemma infinite_step_37D: "round64 (4165829655317709 / 1125899906842624 * (5994892356776527 / 147573952589676412928)) = Finite (346579714376143 / 2305843009213693952)"
proof -
  have "round64 (4165829655317709 / 1125899906842624 * (5994892356776527 / 147573952589676412928)) = Finite (of_int 5545275430018288 / 2 ^ 65)"
    by (rule round64_below) simp_all
  then show ?thesis
    by simp
qed

lemma infinite_step_t1: "round64 (5534023222112865 / 36893488147419103232 / (346579714376143 / 2305843009213693952)) = Finite (8988922276448575 / 9007199254740992)"
proof -
  have "round64 (5534023222112865 / 36893488147419103232 / (346579714376143 / 2305843009213693952)) = Finite (of_int 8988922276448575 / 2 ^ 53)"
    by (rule round64_below) simp_all
  then show ?thesis
    by simp
qed

lemma infinite_step_LD: "round64 (8579357290140795 / 281474976710656 / (5994892356776527 / 147573952589676412928)) = Finite (1611287909585261 / 2147483648)"
proof -
  have "round64 (8579357290140795 / 281474976710656 / (5994892356776527 / 147573952589676412928)) = Finite (of_int 6445151638341044 / 2 ^ 33)"
    by (rule round64_below) simp_all
  then show ?thesis
    by simp
qed

lemma infinite_step_rhoVV: "round64 (6702622979496461 / 2199023255552 * (174547473424387 / 68719476736)) = Finite (259775735675337 / 33554432)"
proof -
  have "round64 (6702622979496461 / 2199023255552 * (174547473424387 / 68719476736)) = Finite (of_int 8312823541610784 / 2 ^ 30)"
    by (rule round64_below) simp_all
  then show ?thesis
    by simp
qed

lemma infinite_step_kin: "round64 (259775735675337 / 33554432 / 2) = Finite (259775735675337 / 67108864)"
proof -
  have "round64 (259775735675337 / 33554432 / 2) = Finite (of_int 8312823541610784 / 2 ^ 31)"
    by (rule round64_below) simp_all
  then show ?thesis
    by simp
qed

text \<open>
  The two summands of \<^verbatim>\<open>term\<close> round to 1 for every value of \<^verbatim>\<open>Math.pow(Re, 0.9)\<close>
  between the two bounds, the factor is then 0.25 / 0, and the infinity goes through the
  two products and the last quotient.
\<close>

lemma infinite_factor:
  assumes "2828.76758373463 \<le> pow_result lib infinite_friction_Re (8106479329266893 / 9007199254740992)"
    and "pow_result lib infinite_friction_Re (8106479329266893 / 9007199254740992) \<le> 2828.76758373484"
  shows "frictionFactorDarcy64 lib (Finite infinite_friction_Re) (round64 0.00015) (Finite (5994892356776527 / 147573952589676412928))
           = PosInfinity"
proof -
  define p where "p = pow_result lib infinite_friction_Re (8106479329266893 / 9007199254740992)"
  have p: "2828.76758373463 \<le> p" "p \<le> 2828.76758373484"
    using assms by (simp_all add: p_def)
  have p0: "0 < p"
    using p(1) by simp
  define z where "z = 3231332732638331 / 562949953421312 / p"
  have z1: "3231332732638331 / 562949953421312 / 2828.76758373484 \<le> z"
    unfolding z_def using p p0 by (intro divide_left_mono) simp_all
  have z2: "z \<le> 3231332732638331 / 562949953421312 / 2828.76758373463"
    unfolding z_def using p p0 by (intro divide_left_mono) simp_all
  have "\<exists>y. round64 z = Finite y \<and> \<bar>y - z\<bar> \<le> 2 powr of_int (- 61) / 2"
  proof (rule round64_near)
    show "2 ^ 52 * 2 powr real_of_int (- 61) \<le> z"
      using z1 by (simp add: powr_neg_numeral)
    show "z < 2 ^ 53 * 2 powr real_of_int (- 61)"
      using z2 by (simp add: powr_neg_numeral)
  qed simp_all
  then obtain y where y: "round64 z = Finite y" "\<bar>y - z\<bar> \<le> 1 / 2 ^ 62"
    by (auto simp add: powr_neg_numeral)
  have pw: "Math_pow64 lib (Finite infinite_friction_Re) (round64 0.9) = Finite p"
    unfolding lit_0_9 Math_pow64_def p_def by (simp add: infinite_friction_Re_def)
  have t2: "js_div64 (round64 5.74) (Math_pow64 lib (Finite infinite_friction_Re) (round64 0.9))
              = Finite y"
    unfolding pw lit_5_74 using p0 y(1) by (simp add: z_def)
  have t1: "js_div64 (round64 0.00015) (js_mul64 (round64 3.7) (Finite (5994892356776527 / 147573952589676412928)))
              = Finite (8988922276448575 / 9007199254740992)"
    unfolding lit_galv lit_3_7 using infinite_step_37D infinite_step_t1 by simp
  have yb: "z - 1 / 2 ^ 62 \<le> y" "y \<le> z + 1 / 2 ^ 62"
    using y(2) by linarith+
  have zl: "157779918585856005859375 / 77756571264806907749072896 \<le> z"
    using z1 by simp
  have zh: "z \<le> 157779918585856005859375 / 77756571264801135313027072"
    using z2 by simp
  have e: "(1::real) / 2 ^ 62 = 1 / 4611686018427387904"
    by simp
  have s1: "18014398509481983 / 18014398509481984 < 8988922276448575 / 9007199254740992 + y"
    using yb zl unfolding e by linarith
  have s2: "8988922276448575 / 9007199254740992 + y < 9007199254740993 / 9007199254740992"
    using yb zh unfolding e by linarith
  have "round64 (8988922276448575 / 9007199254740992 + y) = Finite 1"
    by (rule round64_one) (use s1 s2 in simp_all)
  then have "js_add64 (Finite (8988922276448575 / 9007199254740992)) (Finite y) = Finite 1"
    by simp
  then have tm: "js_add64 (js_div64 (round64 0.00015) (js_mul64 (round64 3.7) (Finite (5994892356776527 / 147573952589676412928))))
      (js_div64 (round64 5.74) (Math_pow64 lib (Finite infinite_friction_Re) (round64 0.9)))
      = Finite 1"
    by (simp only: t1 t2)
  show ?thesis
    unfolding frictionFactorDarcy64_def Let_def tm lit_0_25
    by (simp add: js_le_def js_lt_def infinite_friction_Re_def Math_log10_64_def Math_pow64_def
        js_div_def)
qed

lemma infinite_friction_area:
  "area_and_cfm64 infinite_friction_duct = (Finite (8301034833169299 / 36028797018963968), Finite 800)"
  using infinite_step_areaFt2 infinite_step_areaIn2
  by (simp add: area_and_cfm64_def infinite_friction_duct_def Let_def toNum_def js_gt_def)

lemma infinite_friction_roundDia: "roundDia infinite_friction_duct = Finite (7375605753908129 / 4611686018427387904)"
  unfolding infinite_friction_duct_def lit_dia by simp

lemma infinite_friction_geometry:
  "fst (geometry64 lib infinite_friction_duct) = Finite (7375605753908129 / 4611686018427387904)"
proof -
  have "shape infinite_friction_duct = Round"
    by (simp add: infinite_friction_duct_def)
  then show ?thesis
    by (simp add: geometry64_def infinite_friction_roundDia toNum_def)
qed

lemma infinite_friction:
  assumes "2828.76758373463 \<le> pow_result lib infinite_friction_Re (8106479329266893 / 9007199254740992)"
    and "pow_result lib infinite_friction_Re (8106479329266893 / 9007199254740992) \<le> 2828.76758373484"
  shows "friction64 lib Galv (Finite 800) (Finite (8301034833169299 / 36028797018963968)) (Finite (7375605753908129 / 4611686018427387904)) = PosInfinity"
proof -
  have D: "inToM64 (Finite (7375605753908129 / 4611686018427387904)) = Finite (5994892356776527 / 147573952589676412928)"
    unfolding inToM64_def lit_inToM using infinite_step_D by simp
  have A: "(if js_gt (Finite (8301034833169299 / 36028797018963968)) 0
            then js_mul64 (Finite (8301034833169299 / 36028797018963968)) (js_mul64 (round64 0.0254) (round64 0.0254))
            else Finite 0) = Finite (5484027528158725 / 36893488147419103232)"
    unfolding lit_inToM using infinite_step_sq infinite_step_A by (simp add: js_gt_def)
  have Q: "cfmToM3s64 (Finite 800) = Finite (6801479551867059 / 18014398509481984)"
    unfolding cfmToM3s64_def lit_cfmToM3s using infinite_step_Q by simp
  have V: "(if js_gt (Finite (5484027528158725 / 36893488147419103232)) 0 then js_div64 (Finite (6801479551867059 / 18014398509481984)) (Finite (5484027528158725 / 36893488147419103232)) else Finite 0)
             = Finite (174547473424387 / 68719476736)"
    using infinite_step_V by (simp add: js_gt_def)
  have R: "(if js_gt (round64 (1.81 / 10 ^ 5)) 0
            then js_div64 (js_mul64 (js_mul64 (round64 1.2) (Finite (174547473424387 / 68719476736))) (Finite (5994892356776527 / 147573952589676412928)))
                          (round64 (1.81 / 10 ^ 5))
            else Finite 0) = Finite infinite_friction_Re"
    unfolding lit_mu lit_rho infinite_friction_Re_def
    using infinite_step_rhoV infinite_step_rhoVD infinite_step_Re by (simp add: js_gt_def)
  have eps: "roughness64 Galv = round64 0.00015"
    by (simp add: roughness64_def)
  have f: "frictionFactorDarcy64 lib (Finite infinite_friction_Re) (round64 0.00015)
             (Finite (5994892356776527 / 147573952589676412928)) = PosInfinity"
    using assms by (rule infinite_factor)
  have LD: "js_div64 (ftToM64 (Finite 100)) (Finite (5994892356776527 / 147573952589676412928)) = Finite (1611287909585261 / 2147483648)"
    unfolding ftToM64_def lit_ftToM using infinite_step_L infinite_step_LD by simp
  have K: "js_div64 (js_mul64 (js_mul64 (round64 1.2) (Finite (174547473424387 / 68719476736))) (Finite (174547473424387 / 68719476736))) (Finite 2)
             = Finite (259775735675337 / 67108864)"
    unfolding lit_rho using infinite_step_rhoV infinite_step_rhoVD infinite_step_rhoVV infinite_step_kin by simp
  show ?thesis
    unfolding friction64_def Let_def D A Q V R eps f LD K paToInWg64_def lit_paToInWg
    by (simp add: js_gt_def)
qed

text \<open>
  The exact power lies between the two bounds, more than a hundred units in the last
  place away from either: it is 2828.767583734780..., the exponent being the binary64
  number nearest to 0.9.
\<close>

lemma two_powr_inverse:
  fixes n :: nat
  assumes "0 < n"
  shows "2 powr (1 / real n) \<le> 1 + 1 / real n"
proof -
  have "(0::real) \<le> 1 / real n"
    by simp
  then have "- 1 \<le> 1 / real n"
    by linarith
  then have "1 + real n * (1 / real n) \<le> (1 + 1 / real n) ^ n"
    by (rule Bernoulli_inequality)
  then have "2 \<le> (1 + 1 / real n) ^ n"
    using assms by simp
  then have "2 powr (1 / real n) \<le> ((1 + 1 / real n) ^ n) powr (1 / real n)"
    by (intro powr_mono2) simp_all
  also have "(1 + 1 / real n) ^ n = (1 + 1 / real n) powr real n"
    by (simp add: powr_realpow add_pos_nonneg)
  also have "\<dots> powr (1 / real n) = 1 + 1 / real n"
    using assms by (simp add: powr_powr add_pos_nonneg)
  finally show ?thesis .
qed

lemma powr_nine_tenths_bounds:
  fixes a b x :: real
  assumes "0 < x" "0 \<le> a" "0 \<le> b" "a ^ 10 \<le> x ^ 9" "x ^ 9 \<le> b ^ 10"
  shows "a \<le> x powr (9 / 10) \<and> x powr (9 / 10) \<le> b"
proof -
  have "(x powr (9 / 10)) ^ 10 = (x powr (9 / 10)) powr 10"
    by simp
  also have "\<dots> = x powr 9"
    by (simp only: powr_powr) simp
  also have "\<dots> = x ^ 9"
    using assms(1) by simp
  finally have p: "(x powr (9 / 10)) ^ 10 = x ^ 9" .
  have "a ^ Suc 9 \<le> (x powr (9 / 10)) ^ Suc 9"
    using assms(4) p by simp
  then have 1: "a \<le> x powr (9 / 10)"
    by (rule power_le_imp_le_base) simp
  have "(x powr (9 / 10)) ^ Suc 9 \<le> b ^ Suc 9"
    using assms(5) p by simp
  then have 2: "x powr (9 / 10) \<le> b"
    by (rule power_le_imp_le_base) (rule assms(3))
  show ?thesis
    using 1 2 by simp
qed

lemma exact_power_in_range:
  "2828.76758373463 \<le> infinite_friction_Re powr (8106479329266893 / 9007199254740992) \<and>
   infinite_friction_Re powr (8106479329266893 / 9007199254740992) \<le> 2828.76758373484"
proof -
  define x :: real where "x = infinite_friction_Re"
  define d :: real where "d = 1 / 45035996273704960"
  have x: "1 \<le> x" "x \<le> 8192" "0 < x"
    by (simp_all add: x_def infinite_friction_Re_def)
  have y: "(8106479329266893 / 9007199254740992 :: real) = 9 / 10 + d"
    by (simp add: d_def)
  have split: "x powr (9 / 10 + d) = x powr (9 / 10) * x powr d"
    by (rule powr_add)
  have main: "141438379186739 / 50000000000 \<le> x powr (9 / 10) \<and>
      x powr (9 / 10) \<le> 2828767583734781 / 1000000000000"
    by (rule powr_nine_tenths_bounds) (simp_all add: x_def infinite_friction_Re_def power_divide)
  have low: "1 \<le> x powr d"
    using x by (intro ge_one_powr_ge_zero) (simp_all add: d_def)
  have "x powr d \<le> 8192 powr d"
    using x by (intro powr_mono2) (simp_all add: d_def)
  also have "(8192::real) = 2 powr 13"
    by simp
  also have "(2 powr 13) powr d = 2 powr (13 * d)"
    by (simp only: powr_powr)
  also have "\<dots> \<le> 2 powr (1 / real (3000000000000000::nat))"
    by (intro powr_mono) (simp_all add: d_def)
  also have "\<dots> \<le> 1 + 1 / real (3000000000000000::nat)"
    by (rule two_powr_inverse) simp
  finally have up: "x powr d \<le> 1 + 1 / 3000000000000000"
    by simp
  have p0: "0 \<le> x powr (9 / 10)"
    by simp
  have "x powr (9 / 10) * x powr d \<le> 2828767583734781 / 1000000000000 * (1 + 1 / 3000000000000000)"
    using main up low by (intro mult_mono) simp_all
  then have hi: "x powr (9 / 10 + d) \<le> 2828.76758373484"
    unfolding split by simp
  have "141438379186739 / 50000000000 * 1 \<le> x powr (9 / 10) * x powr d"
    using main low by (intro mult_mono) simp_all
  then have lo: "2828.76758373463 \<le> x powr (9 / 10 + d)"
    unfolding split by simp
  show ?thesis
    using lo hi unfolding y x_def by simp
qed

text \<open>
  C2 states that every division of the sizing computation has a nonzero denominator or
  is replaced by zero, so that no field of the result is a non-finite value, for every
  text in the numeric fields. The last division of the friction factor,
  \<^verbatim>\<open>0.25 / Math.pow(Math.log10(term), 2)\<close>, is not tested. For the text inputs of
  \<^const>\<open>infinite_friction_duct\<close> (galvanized round duct, velocity 500000, airflow 800,
  diameter 0.001599329556356756) and every Math library whose \<^verbatim>\<open>Math.pow(Re, 0.9)\<close>
  lies between 2828.76758373463 and 2828.76758373484, the binary64 computation takes the
  logarithm of exactly 1 and the friction rate is infinite.
\<close>

theorem friction_rate_infinite:
  assumes "2828.76758373463 \<le> pow_result lib infinite_friction_Re (8106479329266893 / 9007199254740992)"
    and "pow_result lib infinite_friction_Re (8106479329266893 / 9007199254740992) \<le> 2828.76758373484"
  shows "dpInWgPer100ft64 (calc64 lib infinite_friction_duct) = PosInfinity"
proof -
  have "dpInWgPer100ft64 (calc64 lib infinite_friction_duct) =
      friction64 lib (material infinite_friction_duct) (snd (area_and_cfm64 infinite_friction_duct))
        (fst (area_and_cfm64 infinite_friction_duct)) (fst (geometry64 lib infinite_friction_duct))"
    by (simp add: calc64_def Let_def)
  also have "\<dots> = friction64 lib Galv (Finite 800) (Finite (8301034833169299 / 36028797018963968)) (Finite (7375605753908129 / 4611686018427387904))"
    unfolding infinite_friction_area infinite_friction_geometry fst_conv snd_conv
    by (simp add: infinite_friction_duct_def)
  also have "\<dots> = PosInfinity"
    using assms by (rule infinite_friction)
  finally show ?thesis .
qed

text \<open>C2's failing input with the library of exact results.\<close>

theorem friction_rate_infinite_witness:
  "2828.76758373463 \<le>
     pow_result exact_library infinite_friction_Re (8106479329266893 / 9007199254740992) \<and>
   pow_result exact_library infinite_friction_Re (8106479329266893 / 9007199254740992)
     \<le> 2828.76758373484 \<and>
   dpInWgPer100ft64 (calc64 exact_library infinite_friction_duct) = PosInfinity"
proof -
  have p: "pow_result exact_library = (\<lambda>x y. x powr y)"
    by (simp add: exact_library_def)
  have lo: "2828.76758373463 \<le>
      pow_result exact_library infinite_friction_Re (8106479329266893 / 9007199254740992)"
    unfolding p using exact_power_in_range by blast
  have hi: "pow_result exact_library infinite_friction_Re (8106479329266893 / 9007199254740992)
      \<le> 2828.76758373484"
    unfolding p using exact_power_in_range by blast
  show ?thesis
    using lo hi friction_rate_infinite [OF lo hi] by blast
qed

end
